theory Spec2Isabelle
  imports Complex_Main "HOL-Library.Word"
begin

section \<open>Data model of the scene manager\<close>

text \<open>
  The source computes with C++ \<open>float\<close> and GLM vectors. Floating-point values are
  idealised as reals throughout: the properties below are about which values are
  copied, composed and written where, not about rounding.
\<close>

type_synonym vec2 = "real \<times> real"
type_synonym vec3 = "real \<times> real \<times> real"
type_synonym vec4 = "real \<times> real \<times> real \<times> real"

text \<open>A \<open>glm::mat4\<close> is column-major: four columns, each a \<open>vec4\<close>.\<close>

type_synonym mat4 = "vec4 \<times> vec4 \<times> vec4 \<times> vec4"

type_synonym GLuint = "32 word"

text \<open>
  \<open>OBJECT_MATERIAL\<close> and \<open>TEXTURE_INFO\<close> are declared in SceneManager.h; the fields are
  the ones SceneManager.cpp reads and writes. \<open>ID\<close> is a \<open>GLuint\<close>: its address is
  passed to \<open>glGenTextures\<close>.
\<close>

record OBJECT_MATERIAL =
  diffuseColor :: vec3
  specularColor :: vec3
  shininess :: real
  tag :: string

record TEXTURE_INFO =
  ID :: GLuint
  tag :: string

text \<open>
  The shader manager is an external collaborator. A call the scene manager makes on
  it is recorded as a value; the uniform names are the string keys of the source.
\<close>

datatype shader_call =
    setIntValue string int
  | setBoolValue string bool
  | setFloatValue string real
  | setVec2Value string vec2
  | setVec3Value string vec3
  | setVec4Value string vec4
  | setMat4Value string mat4
  | setSampler2DValue string int

text \<open>Calls on the OpenGL texture interface, with the name \<open>glGenTextures\<close> handed back.\<close>

datatype gl_call =
    glGenTextures GLuint
  | glBindTexture GLuint
  | glTexParameteri string string
  | glTexImage2D string int int
  | glGenerateMipmap
  | glActiveTexture int
  | glDeleteTextures GLuint

text \<open>Undefined behaviour of the C++ source is a value of the model.\<close>

datatype error =
    ArrayIndexOutOfBounds
  | NullPointerDereference
  | SignedIntegerOverflow

text \<open>
  The state of a \<open>SceneManager\<close>. \<open>m_pShaderManager\<close> is \<open>None\<close> for a null pointer and
  otherwise holds the calls the shader manager has received, oldest first.
  \<open>m_textureIDs\<close> is the fixed array; its length is the declared bound.
  \<open>gl_calls\<close> are the calls issued to OpenGL so far, oldest first.
\<close>

record SceneManager =
  m_pShaderManager :: "shader_call list option"
  m_loadedTextures :: int
  m_textureIDs :: "TEXTURE_INFO list"
  m_objectMaterials :: "OBJECT_MATERIAL list"
  gl_calls :: "gl_call list"

definition INT_MAX :: int where
  "INT_MAX = 2147483647"

text \<open>Reading \<open>m_textureIDs[i]\<close>: outside the array the behaviour is undefined.\<close>

definition textureIDs_at :: "SceneManager \<Rightarrow> int \<Rightarrow> error + TEXTURE_INFO" where
  "textureIDs_at s i =
     (if 0 \<le> i \<and> i < int (length (m_textureIDs s))
      then Inr (m_textureIDs s ! nat i)
      else Inl ArrayIndexOutOfBounds)"

subsection \<open>FindTextureID, FindTextureSlot\<close>

text \<open>
  The \<open>while\<close> loop of \<open>FindTextureID\<close>, on its three locals. \<open>index\<close> never exceeds
  \<open>m_loadedTextures\<close>, so \<open>index++\<close> cannot overflow. The \<open>GLuint\<close> handle is
  returned through the \<open>int\<close> return type (\<open>sint\<close>).
\<close>

function FindTextureID_loop :: "SceneManager \<Rightarrow> string \<Rightarrow> int \<Rightarrow> bool \<Rightarrow> int \<Rightarrow> error + int" where
  "FindTextureID_loop s tg index bFound textureID =
     (if index < m_loadedTextures s \<and> bFound = False then
        (case textureIDs_at s index of
           Inl e \<Rightarrow> Inl e
         | Inr entry \<Rightarrow>
             if TEXTURE_INFO.tag entry = tg
             then FindTextureID_loop s tg index True (sint (ID entry))
             else FindTextureID_loop s tg (index + 1) bFound textureID)
      else Inr textureID)"
  by pat_completeness auto
termination
  by (relation "measure (\<lambda>(s, tg, index, bFound, textureID).
        2 * nat (m_loadedTextures s - index) + (if bFound then 0 else 1))") auto

definition FindTextureID :: "SceneManager \<Rightarrow> string \<Rightarrow> error + int" where
  "FindTextureID s tg = FindTextureID_loop s tg 0 False (- 1)"

function FindTextureSlot_loop :: "SceneManager \<Rightarrow> string \<Rightarrow> int \<Rightarrow> bool \<Rightarrow> int \<Rightarrow> error + int" where
  "FindTextureSlot_loop s tg index bFound textureSlot =
     (if index < m_loadedTextures s \<and> bFound = False then
        (case textureIDs_at s index of
           Inl e \<Rightarrow> Inl e
         | Inr entry \<Rightarrow>
             if TEXTURE_INFO.tag entry = tg
             then FindTextureSlot_loop s tg index True index
             else FindTextureSlot_loop s tg (index + 1) bFound textureSlot)
      else Inr textureSlot)"
  by pat_completeness auto
termination
  by (relation "measure (\<lambda>(s, tg, index, bFound, textureSlot).
        2 * nat (m_loadedTextures s - index) + (if bFound then 0 else 1))") auto

definition FindTextureSlot :: "SceneManager \<Rightarrow> string \<Rightarrow> error + int" where
  "FindTextureSlot s tg = FindTextureSlot_loop s tg 0 False (- 1)"

subsection \<open>FindMaterial\<close>

text \<open>
  The loop of \<open>FindMaterial\<close> on \<open>index\<close>, \<open>bFound\<close> and the out-parameter \<open>material\<close>.
  \<open>index\<close> is an \<open>int\<close> compared with the unsigned \<open>size()\<close>; \<open>index++\<close> at
  \<open>INT_MAX\<close> is a signed overflow.
\<close>

function FindMaterial_loop ::
  "OBJECT_MATERIAL list \<Rightarrow> string \<Rightarrow> int \<Rightarrow> bool \<Rightarrow> OBJECT_MATERIAL \<Rightarrow> error + OBJECT_MATERIAL" where
  "FindMaterial_loop mats tg index bFound material =
     (if 0 \<le> index \<and> index < int (length mats) \<and> bFound = False then
        (if OBJECT_MATERIAL.tag (mats ! nat index) = tg
         then FindMaterial_loop mats tg index True
                (material\<lparr>diffuseColor := diffuseColor (mats ! nat index),
                          specularColor := specularColor (mats ! nat index),
                          shininess := shininess (mats ! nat index)\<rparr>)
         else if index = INT_MAX then Inl SignedIntegerOverflow
         else FindMaterial_loop mats tg (index + 1) bFound material)
      else Inr material)"
  by pat_completeness auto
termination
  by (relation "measure (\<lambda>(mats, tg, index, bFound, material).
        2 * nat (int (length mats) - index) + (if bFound then 0 else 1))") auto

text \<open>\<open>FindMaterial\<close> returns its \<open>bool\<close> together with the out-parameter.\<close>

definition FindMaterial ::
  "SceneManager \<Rightarrow> string \<Rightarrow> OBJECT_MATERIAL \<Rightarrow> error + (bool \<times> OBJECT_MATERIAL)" where
  "FindMaterial s tg material =
     (if length (m_objectMaterials s) = 0 then Inr (False, material)
      else (case FindMaterial_loop (m_objectMaterials s) tg 0 False material of
              Inl e \<Rightarrow> Inl e
            | Inr material' \<Rightarrow> Inr (True, material')))"

subsection \<open>CreateGLTexture, BindGLTextures, DestroyGLTextures\<close>

text \<open>
  \<open>CreateGLTexture\<close> takes what its collaborators hand back: \<open>image_data\<close> is the result
  of \<open>stbi_load\<close> (\<open>None\<close> for a null pointer, otherwise width, height and channel
  count) and \<open>textureID\<close> the name written by \<open>glGenTextures\<close>. Console output is not
  modelled. The entry is written at \<open>m_textureIDs[m_loadedTextures]\<close> with no bounds
  check; past the array that write is undefined behaviour.
\<close>

definition register_texture :: "SceneManager \<Rightarrow> GLuint \<Rightarrow> string \<Rightarrow> error + (bool \<times> SceneManager)" where
  "register_texture s textureID tg =
     (let n = m_loadedTextures s in
      if 0 \<le> n \<and> n < int (length (m_textureIDs s))
      then Inr (True,
             s\<lparr>m_textureIDs := (m_textureIDs s)
                  [nat n := (m_textureIDs s ! nat n)\<lparr>ID := textureID, TEXTURE_INFO.tag := tg\<rparr>],
               m_loadedTextures := n + 1\<rparr>)
      else Inl ArrayIndexOutOfBounds)"

definition CreateGLTexture ::
  "SceneManager \<Rightarrow> string \<Rightarrow> string \<Rightarrow> (int \<times> int \<times> int) option \<Rightarrow> GLuint
     \<Rightarrow> error + (bool \<times> SceneManager)" where
  "CreateGLTexture s filename tg image_data textureID =
     (case image_data of
        None \<Rightarrow> Inr (False, s)
      | Some (width, height, colorChannels) \<Rightarrow>
          (let s1 = s\<lparr>gl_calls := gl_calls s @
                      [glGenTextures textureID,
                       glBindTexture textureID,
                       glTexParameteri ''GL_TEXTURE_WRAP_S'' ''GL_REPEAT'',
                       glTexParameteri ''GL_TEXTURE_WRAP_T'' ''GL_REPEAT'',
                       glTexParameteri ''GL_TEXTURE_MIN_FILTER'' ''GL_LINEAR'',
                       glTexParameteri ''GL_TEXTURE_MAG_FILTER'' ''GL_LINEAR'']\<rparr>
           in if colorChannels = 3 then
                register_texture
                  (s1\<lparr>gl_calls := gl_calls s1 @
                      [glTexImage2D ''GL_RGB8'' width height, glGenerateMipmap, glBindTexture 0]\<rparr>)
                  textureID tg
              else if colorChannels = 4 then
                register_texture
                  (s1\<lparr>gl_calls := gl_calls s1 @
                      [glTexImage2D ''GL_RGBA8'' width height, glGenerateMipmap, glBindTexture 0]\<rparr>)
                  textureID tg
              else Inr (False, s1)))"

definition GL_TEXTURE0 :: int where
  "GL_TEXTURE0 = 33984"

function BindGLTextures_loop :: "SceneManager \<Rightarrow> int \<Rightarrow> error + SceneManager" where
  "BindGLTextures_loop s i =
     (if i < m_loadedTextures s then
        (case textureIDs_at s i of
           Inl e \<Rightarrow> Inl e
         | Inr entry \<Rightarrow>
             BindGLTextures_loop
               (s\<lparr>gl_calls := gl_calls s @
                    [glActiveTexture (GL_TEXTURE0 + i), glBindTexture (ID entry)]\<rparr>)
               (i + 1))
      else Inr s)"
  by pat_completeness auto
termination
  by (relation "measure (\<lambda>(s, i). nat (m_loadedTextures s - i))") auto

definition BindGLTextures :: "SceneManager \<Rightarrow> error + SceneManager" where
  "BindGLTextures s = BindGLTextures_loop s 0"

text \<open>
  \<open>DestroyGLTextures\<close> calls \<open>glGenTextures(1, &m_textureIDs[i].ID)\<close> in its loop:
  \<open>gen i\<close> is the name OpenGL writes into the entry in iteration \<open>i\<close>.
\<close>

function DestroyGLTextures_loop :: "(int \<Rightarrow> GLuint) \<Rightarrow> SceneManager \<Rightarrow> int \<Rightarrow> error + SceneManager" where
  "DestroyGLTextures_loop gen s i =
     (if i < m_loadedTextures s then
        (if 0 \<le> i \<and> i < int (length (m_textureIDs s)) then
           DestroyGLTextures_loop gen
             (s\<lparr>gl_calls := gl_calls s @ [glGenTextures (gen i)],
                m_textureIDs := (m_textureIDs s)
                  [nat i := (m_textureIDs s ! nat i)\<lparr>ID := gen i\<rparr>]\<rparr>)
             (i + 1)
         else Inl ArrayIndexOutOfBounds)
      else Inr s)"
  by pat_completeness auto
termination
  by (relation "measure (\<lambda>(gen, s, i). nat (m_loadedTextures s - i))") auto

definition DestroyGLTextures :: "(int \<Rightarrow> GLuint) \<Rightarrow> SceneManager \<Rightarrow> error + SceneManager" where
  "DestroyGLTextures gen s = DestroyGLTextures_loop gen s 0"

subsection \<open>The GLM functions the source calls\<close>

text \<open>
  GLM is an external library. These are its \<open>mat4\<close> product, \<open>glm::scale\<close>,
  \<open>glm::rotate\<close>, \<open>glm::translate\<close> (the one-argument forms of \<open>gtx/transform\<close> start
  from the identity matrix), \<open>glm::normalize\<close> and \<open>glm::radians\<close>, over the reals.
\<close>

fun vec4_times :: "vec4 \<Rightarrow> real \<Rightarrow> vec4" where
  "vec4_times (x, y, z, w) k = (x * k, y * k, z * k, w * k)"

fun vec4_plus :: "vec4 \<Rightarrow> vec4 \<Rightarrow> vec4" where
  "vec4_plus (x, y, z, w) (x', y', z', w') = (x + x', y + y', z + z', w + w')"

fun mat4_times_vec4 :: "mat4 \<Rightarrow> vec4 \<Rightarrow> vec4" where
  "mat4_times_vec4 (m0, m1, m2, m3) (x, y, z, w) =
     vec4_plus (vec4_plus (vec4_plus (vec4_times m0 x) (vec4_times m1 y)) (vec4_times m2 z))
       (vec4_times m3 w)"

fun mat4_times :: "mat4 \<Rightarrow> mat4 \<Rightarrow> mat4" where
  "mat4_times m1 (b0, b1, b2, b3) =
     (mat4_times_vec4 m1 b0, mat4_times_vec4 m1 b1, mat4_times_vec4 m1 b2, mat4_times_vec4 m1 b3)"

definition mat4_identity :: mat4 where
  "mat4_identity = ((1, 0, 0, 0), (0, 1, 0, 0), (0, 0, 1, 0), (0, 0, 0, 1))"

definition glm_radians :: "real \<Rightarrow> real" where
  "glm_radians degrees = degrees * (pi / 180)"

fun glm_normalize :: "vec3 \<Rightarrow> vec3" where
  "glm_normalize (x, y, z) =
     (x * (1 / sqrt (x * x + y * y + z * z)),
      y * (1 / sqrt (x * x + y * y + z * z)),
      z * (1 / sqrt (x * x + y * y + z * z)))"

fun glm_scale_mat :: "mat4 \<Rightarrow> vec3 \<Rightarrow> mat4" where
  "glm_scale_mat (m0, m1, m2, m3) (x, y, z) =
     (vec4_times m0 x, vec4_times m1 y, vec4_times m2 z, m3)"

fun glm_translate_mat :: "mat4 \<Rightarrow> vec3 \<Rightarrow> mat4" where
  "glm_translate_mat (m0, m1, m2, m3) (x, y, z) =
     (m0, m1, m2,
      vec4_plus (vec4_plus (vec4_plus (vec4_times m0 x) (vec4_times m1 y)) (vec4_times m2 z)) m3)"

fun glm_rotate_mat :: "mat4 \<Rightarrow> real \<Rightarrow> vec3 \<Rightarrow> mat4" where
  "glm_rotate_mat (m0, m1, m2, m3) a v =
     (let c = cos a; s = sin a in
      case glm_normalize v of (ax, ay, az) \<Rightarrow>
      (let t0 = (1 - c) * ax; t1 = (1 - c) * ay; t2 = (1 - c) * az;
           r00 = c + t0 * ax; r01 = t0 * ay + s * az; r02 = t0 * az - s * ay;
           r10 = t1 * ax - s * az; r11 = c + t1 * ay; r12 = t1 * az + s * ax;
           r20 = t2 * ax + s * ay; r21 = t2 * ay - s * ax; r22 = c + t2 * az
       in (vec4_plus (vec4_plus (vec4_times m0 r00) (vec4_times m1 r01)) (vec4_times m2 r02),
           vec4_plus (vec4_plus (vec4_times m0 r10) (vec4_times m1 r11)) (vec4_times m2 r12),
           vec4_plus (vec4_plus (vec4_times m0 r20) (vec4_times m1 r21)) (vec4_times m2 r22),
           m3)))"

definition glm_scale :: "vec3 \<Rightarrow> mat4" where
  "glm_scale v = glm_scale_mat mat4_identity v"

definition glm_rotate :: "real \<Rightarrow> vec3 \<Rightarrow> mat4" where
  "glm_rotate angle v = glm_rotate_mat mat4_identity angle v"

definition glm_translate :: "vec3 \<Rightarrow> mat4" where
  "glm_translate v = glm_translate_mat mat4_identity v"

subsection \<open>SetTransformations, SetShaderColor, SetShaderTexture, SetShaderMaterial\<close>

text \<open>
  The local \<open>modelView\<close> of \<open>SetTransformations\<close>: the five matrices built by the GLM
  calls, multiplied from left to right as \<open>operator*\<close> associates.
\<close>

definition modelView_of :: "vec3 \<Rightarrow> real \<Rightarrow> real \<Rightarrow> real \<Rightarrow> vec3 \<Rightarrow> mat4" where
  "modelView_of scaleXYZ XrotationDegrees YrotationDegrees ZrotationDegrees positionXYZ =
     (let scale = glm_scale scaleXYZ;
          rotationX = glm_rotate (glm_radians XrotationDegrees) (1, 0, 0);
          rotationY = glm_rotate (glm_radians YrotationDegrees) (0, 1, 0);
          rotationZ = glm_rotate (glm_radians ZrotationDegrees) (0, 0, 1);
          translation = glm_translate positionXYZ
      in mat4_times (mat4_times (mat4_times (mat4_times translation rotationZ) rotationY) rotationX)
           scale)"

definition SetTransformations ::
  "SceneManager \<Rightarrow> vec3 \<Rightarrow> real \<Rightarrow> real \<Rightarrow> real \<Rightarrow> vec3 \<Rightarrow> SceneManager" where
  "SetTransformations s scaleXYZ XrotationDegrees YrotationDegrees ZrotationDegrees positionXYZ =
     (let modelView =
            modelView_of scaleXYZ XrotationDegrees YrotationDegrees ZrotationDegrees positionXYZ
      in case m_pShaderManager s of
           None \<Rightarrow> s
         | Some calls \<Rightarrow>
             s\<lparr>m_pShaderManager := Some (calls @ [setMat4Value ''model'' modelView])\<rparr>)"

text \<open>\<open>setIntValue(g_UseTextureName, false)\<close> passes the \<open>bool\<close> as the \<open>int\<close> 0.\<close>

definition SetShaderColor :: "SceneManager \<Rightarrow> real \<Rightarrow> real \<Rightarrow> real \<Rightarrow> real \<Rightarrow> SceneManager" where
  "SetShaderColor s redColorValue greenColorValue blueColorValue alphaValue =
     (let currentColor = (redColorValue, greenColorValue, blueColorValue, alphaValue)
      in case m_pShaderManager s of
           None \<Rightarrow> s
         | Some calls \<Rightarrow>
             s\<lparr>m_pShaderManager := Some (calls @
                 [setIntValue ''bUseTexture'' 0, setVec4Value ''objectColor'' currentColor])\<rparr>)"

definition SetShaderTexture :: "SceneManager \<Rightarrow> string \<Rightarrow> error + SceneManager" where
  "SetShaderTexture s textureTag =
     (case m_pShaderManager s of
        None \<Rightarrow> Inr s
      | Some calls \<Rightarrow>
          (case FindTextureSlot s textureTag of
             Inl e \<Rightarrow> Inl e
           | Inr textureID \<Rightarrow>
               Inr (s\<lparr>m_pShaderManager := Some (calls @
                     [setIntValue ''bUseTexture'' 1,
                      setSampler2DValue ''objectTexture'' textureID])\<rparr>)))"

text \<open>
  \<open>SetShaderMaterial\<close> declares its local \<open>OBJECT_MATERIAL material\<close> without
  initialising the colour and shininess fields: \<open>uninit\<close> stands for its indeterminate
  contents. The shader manager is dereferenced with no null check.
\<close>

definition SetShaderMaterial :: "SceneManager \<Rightarrow> string \<Rightarrow> OBJECT_MATERIAL \<Rightarrow> error + SceneManager" where
  "SetShaderMaterial s materialTag uninit =
     (if length (m_objectMaterials s) > 0 then
        (case FindMaterial s materialTag uninit of
           Inl e \<Rightarrow> Inl e
         | Inr (bReturn, material) \<Rightarrow>
             if bReturn = True then
               (case m_pShaderManager s of
                  None \<Rightarrow> Inl NullPointerDereference
                | Some calls \<Rightarrow>
                    Inr (s\<lparr>m_pShaderManager := Some (calls @
                          [setVec3Value ''material.diffuseColor'' (diffuseColor material),
                           setVec3Value ''material.specularColor'' (specularColor material),
                           setFloatValue ''material.shininess'' (shininess material)])\<rparr>))
             else Inr s)
      else Inr s)"

text \<open>\<open>DefineObjectMaterials\<close> appends the three materials of the scene.\<close>

definition DefineObjectMaterials :: "SceneManager \<Rightarrow> SceneManager" where
  "DefineObjectMaterials s =
     (let plasticMaterial = \<lparr>diffuseColor = (0.5, 0.5, 0.5), specularColor = (0.7, 0.7, 0.7),
                              shininess = 5, OBJECT_MATERIAL.tag = ''plastic''\<rparr>;
          woodMaterial = \<lparr>diffuseColor = (0.6, 0.5, 0.2), specularColor = (0.5, 0.2, 0.5),
                           shininess = 1, OBJECT_MATERIAL.tag = ''wood''\<rparr>;
          stoneMaterial = \<lparr>diffuseColor = (0.5, 0.5, 0.5), specularColor = (0.73, 0.3, 0.3),
                            shininess = 6, OBJECT_MATERIAL.tag = ''stone''\<rparr>
      in s\<lparr>m_objectMaterials :=
             m_objectMaterials s @ [plasticMaterial, woodMaterial, stoneMaterial]\<rparr>)"

subsection \<open>Uniform values held by the shader manager\<close>

fun uniform_name :: "shader_call \<Rightarrow> string" where
  "uniform_name (setIntValue n v) = n"
| "uniform_name (setBoolValue n v) = n"
| "uniform_name (setFloatValue n v) = n"
| "uniform_name (setVec2Value n v) = n"
| "uniform_name (setVec3Value n v) = n"
| "uniform_name (setVec4Value n v) = n"
| "uniform_name (setMat4Value n v) = n"
| "uniform_name (setSampler2DValue n v) = n"

text \<open>
  Modelled from the spec: ShaderManager is not among the sources. The spec's shading
  interface "accepts named scalar/vector/matrix/boolean/sampler values by string key",
  with "last write wins before next draw call": the value of a uniform is the latest
  call that named it, if any.
\<close>

definition uniform :: "shader_call list \<Rightarrow> string \<Rightarrow> shader_call option" where
  "uniform calls name = find (\<lambda>c. uniform_name c = name) (rev calls)"

subsection \<open>Sequences of loads\<close>

text \<open>
  A sequence of \<open>CreateGLTexture\<close> calls, each with its file name, tag, decoder result
  and generated name. A call that returns \<open>false\<close> does not stop the sequence.
\<close>

type_synonym texture_load = "string \<times> string \<times> (int \<times> int \<times> int) option \<times> GLuint"

fun CreateGLTextures :: "SceneManager \<Rightarrow> texture_load list \<Rightarrow> error + SceneManager" where
  "CreateGLTextures s [] = Inr s"
| "CreateGLTextures s ((filename, tg, image_data, textureID) # loads) =
     (case CreateGLTexture s filename tg image_data textureID of
        Inl e \<Rightarrow> Inl e
      | Inr (ok, s') \<Rightarrow> CreateGLTextures s' loads)"

text \<open>A load registers an entry when the image was decoded with 3 or 4 channels.\<close>

fun load_succeeds :: "texture_load \<Rightarrow> bool" where
  "load_succeeds (filename, tg, None, textureID) = False"
| "load_succeeds (filename, tg, Some (width, height, colorChannels), textureID) =
     (colorChannels = 3 \<or> colorChannels = 4)"

fun entry_of :: "texture_load \<Rightarrow> TEXTURE_INFO" where
  "entry_of (filename, tg, image_data, textureID) = \<lparr>ID = textureID, TEXTURE_INFO.tag = tg\<rparr>"

section \<open>The view manager\<close>

datatype Camera_Movement = FORWARD | BACKWARD | LEFT | RIGHT | UP | DOWN

datatype glfw_key =
    GLFW_KEY_ESCAPE
  | GLFW_KEY_W | GLFW_KEY_S | GLFW_KEY_A | GLFW_KEY_D | GLFW_KEY_Q | GLFW_KEY_E
  | GLFW_KEY_P | GLFW_KEY_O

text \<open>
  The \<open>Camera\<close> class is not among the sources. Of its state the rotation angles and
  the mouse sensitivity are kept; the direction vectors are derived from the angles.
\<close>

record Camera =
  Yaw :: real
  Pitch :: real
  MouseSensitivity :: real

text \<open>
  Modelled from the spec: \<open>Camera::ProcessMouseMovement\<close> is not among the sources.
  The spec's mouse-move step is to "scale both offsets by \<open>mouseSensitivity\<close>, add to
  \<open>yaw\<close>/\<open>pitch\<close>, clamp \<open>pitch\<close> to (-89, 89)". The spec gives the bounds as an open
  interval and does not say which value inside it an out-of-range pitch is set to, so
  the clamp stays a parameter, \<open>clamp\<close>.
\<close>

definition ProcessMouseMovement :: "(real \<Rightarrow> real) \<Rightarrow> real \<Rightarrow> real \<Rightarrow> Camera \<Rightarrow> Camera" where
  "ProcessMouseMovement clamp xoffset yoffset cam =
     cam\<lparr>Yaw := Yaw cam + xoffset * MouseSensitivity cam,
         Pitch := clamp (Pitch cam + yoffset * MouseSensitivity cam)\<rparr>"


definition clamp_keeps_inside :: "(real \<Rightarrow> real) \<Rightarrow> bool" where
  "clamp_keeps_inside clamp = (\<forall>p. - 89 < p \<and> p < 89 \<longrightarrow> clamp p = p)"

text \<open>
  The static members and the file-level flag of ViewManager.cpp, the camera object and
  the close request made through \<open>glfwSetWindowShouldClose\<close>.
\<close>

record ViewManager =
  gLastX :: real
  gLastY :: real
  gFirstMouse :: bool
  gDeltaTime :: real
  gLastFrame :: real
  bOrthographicProjection :: bool
  g_pCamera :: Camera
  windowShouldClose :: bool

text \<open>
  \<open>static_cast<float>\<close> of the event position is the identity on the reals. \<open>clamp\<close> is
  the clamp of the camera step the callback ends with.
\<close>

definition Mouse_Position_Callback ::
  "(real \<Rightarrow> real) \<Rightarrow> real \<Rightarrow> real \<Rightarrow> ViewManager \<Rightarrow> ViewManager" where
  "Mouse_Position_Callback clamp xMousePos yMousePos vm =
     (let vm1 = (if gFirstMouse vm
                 then vm\<lparr>gLastX := xMousePos, gLastY := yMousePos, gFirstMouse := False\<rparr>
                 else vm);
          xOffset = xMousePos - gLastX vm1;
          yOffset = gLastY vm1 - yMousePos;
          vm2 = vm1\<lparr>gLastX := xMousePos, gLastY := yMousePos\<rparr>
      in vm2\<lparr>g_pCamera := ProcessMouseMovement clamp xOffset yOffset (g_pCamera vm2)\<rparr>)"


text \<open>
  One of the six \<open>if (glfwGetKey(m_pWindow, k) == GLFW_PRESS) g_pCamera->ProcessKeyboard(d,
  gDeltaTime)\<close> statements. \<open>pressed k\<close> is the key test; \<open>ProcessKeyboard\<close> is the camera's
  method of that name, not among the sources, and stays a parameter.
\<close>

definition poll_camera_key ::
  "(Camera_Movement \<Rightarrow> real \<Rightarrow> Camera \<Rightarrow> Camera) \<Rightarrow> (glfw_key \<Rightarrow> bool) \<Rightarrow>
     glfw_key \<Rightarrow> Camera_Movement \<Rightarrow> ViewManager \<Rightarrow> ViewManager" where
  "poll_camera_key ProcessKeyboard pressed k d vm =
     (if pressed k
      then vm\<lparr>g_pCamera := ProcessKeyboard d (gDeltaTime vm) (g_pCamera vm)\<rparr>
      else vm)"

text \<open>\<open>ProcessKeyboardEvents\<close> polls each key in the order of the source.\<close>

definition ProcessKeyboardEvents ::
  "(Camera_Movement \<Rightarrow> real \<Rightarrow> Camera \<Rightarrow> Camera) \<Rightarrow> (glfw_key \<Rightarrow> bool) \<Rightarrow> ViewManager \<Rightarrow> ViewManager" where
  "ProcessKeyboardEvents ProcessKeyboard pressed vm =
     (let vm1 = (if pressed GLFW_KEY_ESCAPE then vm\<lparr>windowShouldClose := True\<rparr> else vm);
          vm2 = poll_camera_key ProcessKeyboard pressed GLFW_KEY_W FORWARD vm1;
          vm3 = poll_camera_key ProcessKeyboard pressed GLFW_KEY_S BACKWARD vm2;
          vm4 = poll_camera_key ProcessKeyboard pressed GLFW_KEY_A LEFT vm3;
          vm5 = poll_camera_key ProcessKeyboard pressed GLFW_KEY_D RIGHT vm4;
          vm6 = poll_camera_key ProcessKeyboard pressed GLFW_KEY_Q UP vm5;
          vm7 = poll_camera_key ProcessKeyboard pressed GLFW_KEY_E DOWN vm6;
          vm8 = (if pressed GLFW_KEY_P then vm7\<lparr>bOrthographicProjection := False\<rparr> else vm7)
      in if pressed GLFW_KEY_O then vm8\<lparr>bOrthographicProjection := True\<rparr> else vm8)"

text \<open>Successive polls, each with the keys held during it.\<close>

fun keyboard_polls ::
  "(Camera_Movement \<Rightarrow> real \<Rightarrow> Camera \<Rightarrow> Camera) \<Rightarrow> (glfw_key \<Rightarrow> bool) list \<Rightarrow> ViewManager \<Rightarrow> ViewManager" where
  "keyboard_polls ProcessKeyboard [] vm = vm"
| "keyboard_polls ProcessKeyboard (pressed # polls) vm =
     keyboard_polls ProcessKeyboard polls (ProcessKeyboardEvents ProcessKeyboard pressed vm)"

section \<open>Well-formed states and what is observed of a state\<close>

text \<open>The loaded count lies within the texture array.\<close>

definition registry_ok :: "SceneManager \<Rightarrow> bool" where
  "registry_ok s = (0 \<le> m_loadedTextures s \<and> m_loadedTextures s \<le> int (length (m_textureIDs s)))"

text \<open>The loaded entries, in insertion order: the first \<open>m_loadedTextures\<close> of the array.\<close>

definition loaded :: "SceneManager \<Rightarrow> TEXTURE_INFO list" where
  "loaded s = take (nat (m_loadedTextures s)) (m_textureIDs s)"

text \<open>The value of a uniform in the shader manager of a state.\<close>

definition shader_uniform :: "SceneManager \<Rightarrow> string \<Rightarrow> shader_call option" where
  "shader_uniform s name =
     (case m_pShaderManager s of None \<Rightarrow> None | Some calls \<Rightarrow> uniform calls name)"

text \<open>The calls that delete a texture name.\<close>

fun is_deletion :: "gl_call \<Rightarrow> bool" where
  "is_deletion (glDeleteTextures n) = True"
| "is_deletion c = False"

text \<open>The two calls \<open>BindGLTextures\<close> issues for the entry in slot \<open>j\<close>.\<close>

definition bind_calls :: "TEXTURE_INFO list \<Rightarrow> nat \<Rightarrow> gl_call list" where
  "bind_calls entries j =
     [glActiveTexture (GL_TEXTURE0 + int j), glBindTexture (ID (entries ! j))]"

section \<open>The composition the spec describes\<close>

text \<open>
  The spec composes the model matrix as
  \<open>Translation \<cdot> RotationZ \<cdot> RotationY \<cdot> RotationX \<cdot> Scale\<close>. These are the five
  factors as the spec names them, written out column by column: the scale matrix,
  the rotations about the fixed X, Y and Z axes by an angle given in degrees, and the
  translation matrix.
\<close>

fun spec_Scale :: "vec3 \<Rightarrow> mat4" where
  "spec_Scale (sx, sy, sz) = ((sx, 0, 0, 0), (0, sy, 0, 0), (0, 0, sz, 0), (0, 0, 0, 1))"

definition spec_RotationX :: "real \<Rightarrow> mat4" where
  "spec_RotationX degrees =
     (let a = degrees * pi / 180
      in ((1, 0, 0, 0), (0, cos a, sin a, 0), (0, - sin a, cos a, 0), (0, 0, 0, 1)))"

definition spec_RotationY :: "real \<Rightarrow> mat4" where
  "spec_RotationY degrees =
     (let a = degrees * pi / 180
      in ((cos a, 0, - sin a, 0), (0, 1, 0, 0), (sin a, 0, cos a, 0), (0, 0, 0, 1)))"

definition spec_RotationZ :: "real \<Rightarrow> mat4" where
  "spec_RotationZ degrees =
     (let a = degrees * pi / 180
      in ((cos a, sin a, 0, 0), (- sin a, cos a, 0, 0), (0, 0, 1, 0), (0, 0, 0, 1)))"

fun spec_Translation :: "vec3 \<Rightarrow> mat4" where
  "spec_Translation (tx, ty, tz) = ((1, 0, 0, 0), (0, 1, 0, 0), (0, 0, 1, 0), (tx, ty, tz, 1))"

section \<open>Initial states and sample inputs\<close>

text \<open>
  Modelled from the spec: SceneManager.h, which declares the texture array and the
  initial values of the members, is not among the sources. The spec gives the array
  "a fixed maximum count (16)"; a scene manager starts with no texture loaded and no
  material defined. \<open>pShaderManager\<close> is the constructor's argument.
\<close>

definition new_SceneManager :: "shader_call list option \<Rightarrow> SceneManager" where
  "new_SceneManager pShaderManager =
     \<lparr>m_pShaderManager = pShaderManager,
      m_loadedTextures = 0,
      m_textureIDs = replicate 16 \<lparr>ID = 0, TEXTURE_INFO.tag = []\<rparr>,
      m_objectMaterials = [],
      gl_calls = []\<rparr>"

text \<open>A view manager before its first event, around a given camera.\<close>

definition new_ViewManager :: "Camera \<Rightarrow> ViewManager" where
  "new_ViewManager cam =
     \<lparr>gLastX = 0, gLastY = 0, gFirstMouse = True, gDeltaTime = 0, gLastFrame = 0,
      bOrthographicProjection = False, g_pCamera = cam, windowShouldClose = False\<rparr>"

text \<open>
  A load sequence in which the tag \<open>marble\<close> is registered twice, one file cannot be
  decoded, and \<open>glGenTextures\<close> hands back the names 1, 2 and 3.
\<close>

definition duplicate_tag_loads :: "texture_load list" where
  "duplicate_tag_loads =
     [(''textures/marbletexture.jpg'', ''marble'', Some (512, 512, 3), 1),
      (''textures/woodtexture.jpg'', ''wood'', Some (256, 256, 4), 2),
      (''textures/missing.jpg'', ''tile'', None, 0),
      (''textures/marbletexture.jpg'', ''marble'', Some (512, 512, 3), 3)]"

text \<open>Seventeen loads that all decode, with the names 1 to 17 handed back.\<close>

definition seventeen_loads :: "texture_load list" where
  "seventeen_loads =
     map (\<lambda>i. (''textures/marbletexture.jpg'', ''marble'', Some (512, 512, 3), of_nat i)) [1..<18]"

text \<open>The contents of an out-parameter before a lookup.\<close>

definition prior_material :: OBJECT_MATERIAL where
  "prior_material =
     \<lparr>diffuseColor = (1, 1, 1), specularColor = (1, 1, 1), shininess = 32,
      OBJECT_MATERIAL.tag = ''prior''\<rparr>"

text \<open>
  A scene manager in mid-frame: the three materials defined, no texture loaded, and a
  shader manager that has last been told a material colour, the use-texture flag 0
  and the sampler 0.
\<close>

definition drawn_scene :: SceneManager where
  "drawn_scene =
     DefineObjectMaterials (new_SceneManager (Some
       [setVec3Value ''material.diffuseColor'' (0.6, 0.5, 0.2),
        setIntValue ''bUseTexture'' 0,
        setSampler2DValue ''objectTexture'' 0]))"

text \<open>
  A clamp for sample inputs: a pitch at or beyond a bound is put one degree inside it.
  The spec names no such value; any function that maps into the open interval and
  keeps what is inside serves as well.
\<close>

definition sample_clamp :: "real \<Rightarrow> real" where
  "sample_clamp p = (if p \<ge> 89 then 88 else if p \<le> - 89 then - 88 else p)"

section \<open>Properties\<close>

declare FindTextureID_loop.simps [simp del]
declare FindTextureSlot_loop.simps [simp del]
declare FindMaterial_loop.simps [simp del]
declare BindGLTextures_loop.simps [simp del]
declare DestroyGLTextures_loop.simps [simp del]

subsection \<open>Projection mode keys\<close>

lemma poll_camera_key_projection:
  "bOrthographicProjection (poll_camera_key pk pressed k d vm) = bOrthographicProjection vm"
  by (simp add: poll_camera_key_def)

lemma ProcessKeyboardEvents_flag:
  "bOrthographicProjection (ProcessKeyboardEvents pk pressed vm) =
     (if pressed GLFW_KEY_O then True
      else if pressed GLFW_KEY_P then False
      else bOrthographicProjection vm)"
  by (simp add: ProcessKeyboardEvents_def Let_def poll_camera_key_projection)

text \<open>
  Claim C9. \<open>bOrthographicProjection\<close> is \<open>False\<close> for Perspective and \<open>True\<close> for
  Orthographic. In one poll, whatever \<open>ProcessKeyboard\<close> does and whatever other keys
  are held: with O pressed the mode is Orthographic afterwards, also when P is pressed
  too (P is tested first, O written last); with P pressed and O not, it is Perspective;
  with neither, it is unchanged. Three successive polls with P, then O, then P held
  leave Perspective, Orthographic, Perspective, from any starting mode.
\<close>

theorem ProcessKeyboardEvents_projection:
  "(pressed GLFW_KEY_O \<longrightarrow>
      bOrthographicProjection (ProcessKeyboardEvents pk pressed vm) = True) \<and>
   (pressed GLFW_KEY_P \<and> \<not> pressed GLFW_KEY_O \<longrightarrow>
      bOrthographicProjection (ProcessKeyboardEvents pk pressed vm) = False) \<and>
   (\<not> pressed GLFW_KEY_P \<and> \<not> pressed GLFW_KEY_O \<longrightarrow>
      bOrthographicProjection (ProcessKeyboardEvents pk pressed vm) = bOrthographicProjection vm) \<and>
   (p1 GLFW_KEY_P \<and> \<not> p1 GLFW_KEY_O \<and> p2 GLFW_KEY_O \<and> \<not> p2 GLFW_KEY_P \<and>
    p3 GLFW_KEY_P \<and> \<not> p3 GLFW_KEY_O \<longrightarrow>
      bOrthographicProjection (keyboard_polls pk [p1] vm) = False \<and>
      bOrthographicProjection (keyboard_polls pk [p1, p2] vm) = True \<and>
      bOrthographicProjection (keyboard_polls pk [p1, p2, p3] vm) = False)"
  by (simp add: ProcessKeyboardEvents_flag)

theorem ProcessKeyboardEvents_projection_witness:
  "bOrthographicProjection
     (ProcessKeyboardEvents (\<lambda>d t c. c) (\<lambda>k. k = GLFW_KEY_O \<or> k = GLFW_KEY_P)
        (new_ViewManager \<lparr>Yaw = - 90, Pitch = 0, MouseSensitivity = 0.1\<rparr>)) = True \<and>
   bOrthographicProjection
     (ProcessKeyboardEvents (\<lambda>d t c. c) (\<lambda>k. k = GLFW_KEY_P)
        ((new_ViewManager \<lparr>Yaw = - 90, Pitch = 0, MouseSensitivity = 0.1\<rparr>)
           \<lparr>bOrthographicProjection := True\<rparr>)) = False \<and>
   bOrthographicProjection
     (ProcessKeyboardEvents (\<lambda>d t c. c) (\<lambda>k. k = GLFW_KEY_W)
        ((new_ViewManager \<lparr>Yaw = - 90, Pitch = 0, MouseSensitivity = 0.1\<rparr>)
           \<lparr>bOrthographicProjection := True\<rparr>)) = True \<and>
   bOrthographicProjection
     (keyboard_polls (\<lambda>d t c. c)
        [\<lambda>k. k = GLFW_KEY_P, \<lambda>k. k = GLFW_KEY_O, \<lambda>k. k = GLFW_KEY_P]
        (new_ViewManager \<lparr>Yaw = - 90, Pitch = 0, MouseSensitivity = 0.1\<rparr>)) = False"
  using
    ProcessKeyboardEvents_projection [of "\<lambda>k. k = GLFW_KEY_O \<or> k = GLFW_KEY_P" "\<lambda>d t c. c"
      "new_ViewManager \<lparr>Yaw = - 90, Pitch = 0, MouseSensitivity = 0.1\<rparr>"
      "\<lambda>k. k = GLFW_KEY_P" "\<lambda>k. k = GLFW_KEY_O" "\<lambda>k. k = GLFW_KEY_P"]
    ProcessKeyboardEvents_projection [of "\<lambda>k. k = GLFW_KEY_P" "\<lambda>d t c. c"
      "(new_ViewManager \<lparr>Yaw = - 90, Pitch = 0, MouseSensitivity = 0.1\<rparr>)
         \<lparr>bOrthographicProjection := True\<rparr>"]
    ProcessKeyboardEvents_projection [of "\<lambda>k. k = GLFW_KEY_W" "\<lambda>d t c. c"
      "(new_ViewManager \<lparr>Yaw = - 90, Pitch = 0, MouseSensitivity = 0.1\<rparr>)
         \<lparr>bOrthographicProjection := True\<rparr>"]
  by (simp add: new_ViewManager_def)

subsection \<open>Flat colour and the use-texture flag\<close>

lemma FindTextureID_loop_found: "FindTextureID_loop s tg index True r = Inr r"
  by (simp add: FindTextureID_loop.simps)

lemma FindTextureSlot_loop_found: "FindTextureSlot_loop s tg index True r = Inr r"
  by (simp add: FindTextureSlot_loop.simps)

lemma SetShaderTexture_calls:
  assumes "SetShaderTexture s tg = Inr s'" and "m_pShaderManager s = Some calls"
  shows "\<exists>slot. FindTextureSlot s tg = Inr slot \<and>
           s' = s\<lparr>m_pShaderManager := Some (calls @
                  [setIntValue ''bUseTexture'' 1, setSampler2DValue ''objectTexture'' slot])\<rparr>"
  using assms by (auto simp: SetShaderTexture_def split: sum.splits)

text \<open>
  Claim C10. With a non-null shader manager, \<open>SetShaderColor\<close> changes nothing but
  the shader manager, to which it sends \<open>bUseTexture := 0\<close> and then \<open>objectColor\<close>
  with the four colour components, in that order. The use-texture flag is therefore
  false afterwards, and it is true again after a following \<open>SetShaderTexture\<close>.
\<close>

theorem SetShaderColor_disables_texture:
  "m_pShaderManager s = Some calls \<Longrightarrow>
     SetShaderColor s r g b a =
       s\<lparr>m_pShaderManager := Some (calls @
           [setIntValue ''bUseTexture'' 0, setVec4Value ''objectColor'' (r, g, b, a)])\<rparr> \<and>
     shader_uniform (SetShaderColor s r g b a) ''bUseTexture'' =
       Some (setIntValue ''bUseTexture'' 0) \<and>
     shader_uniform (SetShaderColor s r g b a) ''objectColor'' =
       Some (setVec4Value ''objectColor'' (r, g, b, a)) \<and>
     (SetShaderTexture (SetShaderColor s r g b a) tg = Inr s' \<longrightarrow>
        shader_uniform s' ''bUseTexture'' = Some (setIntValue ''bUseTexture'' 1))"
proof (intro conjI impI)
  assume nn: "m_pShaderManager s = Some calls"
  let ?calls' = "calls @ [setIntValue ''bUseTexture'' 0, setVec4Value ''objectColor'' (r, g, b, a)]"
  show eq: "SetShaderColor s r g b a = s\<lparr>m_pShaderManager := Some ?calls'\<rparr>"
    using nn by (simp add: SetShaderColor_def)
  show "shader_uniform (SetShaderColor s r g b a) ''bUseTexture'' =
          Some (setIntValue ''bUseTexture'' 0)"
    by (simp add: eq shader_uniform_def uniform_def)
  show "shader_uniform (SetShaderColor s r g b a) ''objectColor'' =
          Some (setVec4Value ''objectColor'' (r, g, b, a))"
    by (simp add: eq shader_uniform_def uniform_def)
  assume tex: "SetShaderTexture (SetShaderColor s r g b a) tg = Inr s'"
  have "m_pShaderManager (SetShaderColor s r g b a) = Some ?calls'"
    by (simp add: eq)
  from SetShaderTexture_calls [OF tex this]
  show "shader_uniform s' ''bUseTexture'' = Some (setIntValue ''bUseTexture'' 1)"
    by (auto simp: shader_uniform_def uniform_def)
qed

lemma new_SceneManager_FindTextureSlot:
  "FindTextureSlot ((new_SceneManager p)\<lparr>m_pShaderManager := q\<rparr>) tg = Inr (- 1)"
  by (simp add: FindTextureSlot_def FindTextureSlot_loop.simps new_SceneManager_def)

theorem SetShaderColor_disables_texture_witness:
  "m_pShaderManager (new_SceneManager (Some [])) = Some [] \<and>
   shader_uniform (SetShaderColor (new_SceneManager (Some [])) 1 1 1 1) ''bUseTexture'' =
     Some (setIntValue ''bUseTexture'' 0) \<and>
   SetShaderTexture (SetShaderColor (new_SceneManager (Some [])) 1 1 1 1) ''marble'' =
     Inr ((new_SceneManager (Some []))\<lparr>m_pShaderManager := Some
            [setIntValue ''bUseTexture'' 0, setVec4Value ''objectColor'' (1, 1, 1, 1),
             setIntValue ''bUseTexture'' 1, setSampler2DValue ''objectTexture'' (- 1)]\<rparr>) \<and>
   shader_uniform ((new_SceneManager (Some []))\<lparr>m_pShaderManager := Some
            [setIntValue ''bUseTexture'' 0, setVec4Value ''objectColor'' (1, 1, 1, 1),
             setIntValue ''bUseTexture'' 1, setSampler2DValue ''objectTexture'' (- 1)]\<rparr>)
     ''bUseTexture'' = Some (setIntValue ''bUseTexture'' 1)"
proof -
  let ?s' = "(new_SceneManager (Some []))\<lparr>m_pShaderManager := Some
            [setIntValue ''bUseTexture'' 0, setVec4Value ''objectColor'' (1, 1, 1, 1),
             setIntValue ''bUseTexture'' 1, setSampler2DValue ''objectTexture'' (- 1)]\<rparr>"
  have h1: "m_pShaderManager (new_SceneManager (Some [])) = Some []"
    by (simp add: new_SceneManager_def)
  have h2: "SetShaderTexture (SetShaderColor (new_SceneManager (Some [])) 1 1 1 1) ''marble'' =
              Inr ?s'"
    by (simp add: SetShaderTexture_def SetShaderColor_def h1 new_SceneManager_FindTextureSlot)
  note th = SetShaderColor_disables_texture
    [OF h1, where r = 1 and g = 1 and b = 1 and a = 1 and tg = "''marble''" and s' = "?s'"]
  from th have a: "shader_uniform (SetShaderColor (new_SceneManager (Some [])) 1 1 1 1)
      ''bUseTexture'' = Some (setIntValue ''bUseTexture'' 0)"
    by blast
  from th h2 have b: "shader_uniform ?s' ''bUseTexture'' = Some (setIntValue ''bUseTexture'' 1)"
    by blast
  from h1 a h2 b show ?thesis by blast
qed

subsection \<open>Texture lookup\<close>

lemma textureIDs_at_loaded:
  assumes "registry_ok s" "0 \<le> index" "index < m_loadedTextures s"
  shows "textureIDs_at s index = Inr (loaded s ! nat index)"
  using assms by (simp add: textureIDs_at_def registry_ok_def loaded_def)

lemma length_loaded: "registry_ok s \<Longrightarrow> length (loaded s) = nat (m_loadedTextures s)"
  unfolding loaded_def registry_ok_def by (simp add: min_def) linarith

lemma nat_index_Suc: "0 \<le> index \<Longrightarrow> nat (index + 1) = Suc (nat index)"
  by simp

lemma FindTextureID_loop_miss:
  assumes "registry_ok s" "0 \<le> index"
    and "\<forall>j. nat index \<le> j \<and> j < length (loaded s) \<longrightarrow> TEXTURE_INFO.tag (loaded s ! j) \<noteq> tg"
  shows "FindTextureID_loop s tg index False r = Inr r"
  using assms
proof (induction "nat (m_loadedTextures s - index)" arbitrary: index)
  case 0
  then show ?case by (simp add: FindTextureID_loop.simps)
next
  case (Suc n)
  then have lt: "index < m_loadedTextures s" by linarith
  note at = textureIDs_at_loaded [OF Suc.prems(1,2) lt]
  from Suc.prems lt have ne: "TEXTURE_INFO.tag (loaded s ! nat index) \<noteq> tg"
    by (simp add: length_loaded)
  have "FindTextureID_loop s tg (index + 1) False r = Inr r"
    using Suc.hyps(2) Suc.prems by (intro Suc.hyps(1)) (auto simp: nat_index_Suc)
  then show ?case using lt at ne by (subst FindTextureID_loop.simps) simp
qed

lemma FindTextureID_loop_hit:
  assumes "registry_ok s" "0 \<le> index" "nat index \<le> k" "k < length (loaded s)"
    and "TEXTURE_INFO.tag (loaded s ! k) = tg"
    and "\<forall>j. nat index \<le> j \<and> j < k \<longrightarrow> TEXTURE_INFO.tag (loaded s ! j) \<noteq> tg"
  shows "FindTextureID_loop s tg index False r = Inr (sint (ID (loaded s ! k)))"
  using assms
proof (induction "k - nat index" arbitrary: index)
  case 0
  then have eq: "nat index = k" by simp
  with 0 have lt: "index < m_loadedTextures s" by (simp add: length_loaded)
  note at = textureIDs_at_loaded [OF "0.prems"(1,2) lt]
  show ?case using 0 eq at lt
    by (subst FindTextureID_loop.simps) (simp add: FindTextureID_loop_found)
next
  case (Suc n)
  then have lk: "nat index < k" by linarith
  with Suc.prems have lt: "index < m_loadedTextures s" by (simp add: length_loaded)
  note at = textureIDs_at_loaded [OF Suc.prems(1,2) lt]
  from Suc.prems lk have ne: "TEXTURE_INFO.tag (loaded s ! nat index) \<noteq> tg" by simp
  have "FindTextureID_loop s tg (index + 1) False r = Inr (sint (ID (loaded s ! k)))"
    using Suc.hyps(2) Suc.prems lk by (intro Suc.hyps(1)) (auto simp: nat_index_Suc)
  then show ?case using lt at ne by (subst FindTextureID_loop.simps) simp
qed

lemma FindTextureSlot_loop_miss:
  assumes "registry_ok s" "0 \<le> index"
    and "\<forall>j. nat index \<le> j \<and> j < length (loaded s) \<longrightarrow> TEXTURE_INFO.tag (loaded s ! j) \<noteq> tg"
  shows "FindTextureSlot_loop s tg index False r = Inr r"
  using assms
proof (induction "nat (m_loadedTextures s - index)" arbitrary: index)
  case 0
  then show ?case by (simp add: FindTextureSlot_loop.simps)
next
  case (Suc n)
  then have lt: "index < m_loadedTextures s" by linarith
  note at = textureIDs_at_loaded [OF Suc.prems(1,2) lt]
  from Suc.prems lt have ne: "TEXTURE_INFO.tag (loaded s ! nat index) \<noteq> tg"
    by (simp add: length_loaded)
  have "FindTextureSlot_loop s tg (index + 1) False r = Inr r"
    using Suc.hyps(2) Suc.prems by (intro Suc.hyps(1)) (auto simp: nat_index_Suc)
  then show ?case using lt at ne by (subst FindTextureSlot_loop.simps) simp
qed

lemma FindTextureSlot_loop_hit:
  assumes "registry_ok s" "0 \<le> index" "nat index \<le> k" "k < length (loaded s)"
    and "TEXTURE_INFO.tag (loaded s ! k) = tg"
    and "\<forall>j. nat index \<le> j \<and> j < k \<longrightarrow> TEXTURE_INFO.tag (loaded s ! j) \<noteq> tg"
  shows "FindTextureSlot_loop s tg index False r = Inr (int k)"
  using assms
proof (induction "k - nat index" arbitrary: index)
  case 0
  then have eq: "nat index = k" by simp
  with 0 have lt: "index < m_loadedTextures s" by (simp add: length_loaded)
  note at = textureIDs_at_loaded [OF "0.prems"(1,2) lt]
  from eq "0.prems"(2) have "int k = index" by simp
  then show ?case using 0 eq at lt
    by (subst FindTextureSlot_loop.simps) (simp add: FindTextureSlot_loop_found)
next
  case (Suc n)
  then have lk: "nat index < k" by linarith
  with Suc.prems have lt: "index < m_loadedTextures s" by (simp add: length_loaded)
  note at = textureIDs_at_loaded [OF Suc.prems(1,2) lt]
  from Suc.prems lk have ne: "TEXTURE_INFO.tag (loaded s ! nat index) \<noteq> tg" by simp
  have "FindTextureSlot_loop s tg (index + 1) False r = Inr (int k)"
    using Suc.hyps(2) Suc.prems lk by (intro Suc.hyps(1)) (auto simp: nat_index_Suc)
  then show ?case using lt at ne by (subst FindTextureSlot_loop.simps) simp
qed

lemma first_occurrence:
  assumes "x \<in> set xs"
  shows "\<exists>k. k < length xs \<and> xs ! k = x \<and> x \<notin> set (take k xs)"
  using assms
proof (induction xs)
  case Nil
  then show ?case by simp
next
  case (Cons a xs)
  show ?case
  proof (cases "a = x")
    case True
    then have "0 < length (a # xs) \<and> (a # xs) ! 0 = x \<and> x \<notin> set (take 0 (a # xs))" by simp
    then show ?thesis by blast
  next
    case False
    with Cons obtain k where "k < length xs" "xs ! k = x" "x \<notin> set (take k xs)" by auto
    with False have "Suc k < length (a # xs) \<and> (a # xs) ! Suc k = x \<and> x \<notin> set (take (Suc k) (a # xs))"
      by simp
    then show ?thesis by blast
  qed
qed

lemma not_in_take_tags:
  assumes "tg \<notin> set (map TEXTURE_INFO.tag (take k xs))" "j < k" "k \<le> length xs"
  shows "TEXTURE_INFO.tag (xs ! j) \<noteq> tg"
proof
  assume "TEXTURE_INFO.tag (xs ! j) = tg"
  moreover have "take k xs ! j = xs ! j" using assms by simp
  moreover have "j < length (take k xs)" using assms by simp
  ultimately have "tg \<in> set (map TEXTURE_INFO.tag (take k xs))"
    by (metis length_map nth_map nth_mem)
  with assms show False by simp
qed


lemma replicate_16: "replicate 16 x = [x, x, x, x, x, x, x, x, x, x, x, x, x, x, x, x]"
  by (simp add: numeral_eq_Suc)

lemma sint_small: "uint (w :: 32 word) < 2147483648 \<Longrightarrow> sint w = uint w"
proof -
  assume small: "uint w < 2147483648"
  have "- (2 ^ 31) \<le> (0 :: int)" by simp
  also have "0 \<le> uint w" by simp
  finally have "- (2 ^ 31) \<le> uint w" .
  moreover from small have "uint w < 2 ^ 31" by simp
  ultimately have "signed_take_bit 31 (uint w) = uint w"
    by (simp only: signed_take_bit_int_eq_self_iff)
  then show ?thesis by (simp add: sint_uint)
qed

text \<open>
  Claim C5. In a state whose loaded count lies within the array, for every tag: when
  no loaded entry has the tag, \<open>FindTextureID\<close> and \<open>FindTextureSlot\<close> both return -1;
  when entry \<open>k\<close> of the loaded entries has the tag and no earlier entry has it,
  \<open>FindTextureID\<close> returns that entry's \<open>ID\<close> (through the \<open>int\<close> return type: the
  same number for every handle below 2^31) and \<open>FindTextureSlot\<close> returns \<open>k\<close>, whatever
  later entries carry the same tag. Both always return a value: no read leaves the
  array.
\<close>

theorem FindTexture_first_match:
  "registry_ok s \<Longrightarrow>
     (tg \<notin> set (map TEXTURE_INFO.tag (loaded s)) \<longrightarrow>
        FindTextureID s tg = Inr (- 1) \<and> FindTextureSlot s tg = Inr (- 1)) \<and>
     (k < length (loaded s) \<and> TEXTURE_INFO.tag (loaded s ! k) = tg \<and>
      tg \<notin> set (map TEXTURE_INFO.tag (take k (loaded s))) \<longrightarrow>
        FindTextureID s tg = Inr (sint (ID (loaded s ! k))) \<and>
        (uint (ID (loaded s ! k)) < 2147483648 \<longrightarrow>
           FindTextureID s tg = Inr (uint (ID (loaded s ! k)))) \<and>
        FindTextureSlot s tg = Inr (int k)) \<and>
     (\<exists>v. FindTextureID s tg = Inr v) \<and> (\<exists>v. FindTextureSlot s tg = Inr v)"
proof -
  assume ok: "registry_ok s"
  have miss: "FindTextureID s tg = Inr (- 1) \<and> FindTextureSlot s tg = Inr (- 1)"
    if "tg \<notin> set (map TEXTURE_INFO.tag (loaded s))" for tg
  proof -
    from that have "\<forall>j. nat 0 \<le> j \<and> j < length (loaded s) \<longrightarrow> TEXTURE_INFO.tag (loaded s ! j) \<noteq> tg"
      using not_in_take_tags [of tg "length (loaded s)" "loaded s"] by simp
    with ok show ?thesis
      by (simp add: FindTextureID_def FindTextureSlot_def FindTextureID_loop_miss
          FindTextureSlot_loop_miss)
  qed
  have hit: "FindTextureID s tg = Inr (sint (ID (loaded s ! k))) \<and> FindTextureSlot s tg = Inr (int k)"
    if "k < length (loaded s)" "TEXTURE_INFO.tag (loaded s ! k) = tg"
      "tg \<notin> set (map TEXTURE_INFO.tag (take k (loaded s)))" for tg k
  proof -
    from that have "\<forall>j. nat 0 \<le> j \<and> j < k \<longrightarrow> TEXTURE_INFO.tag (loaded s ! j) \<noteq> tg"
      using not_in_take_tags [of tg k "loaded s"] by simp
    with ok that show ?thesis
      by (simp add: FindTextureID_def FindTextureSlot_def FindTextureID_loop_hit
          FindTextureSlot_loop_hit)
  qed
  have total: "(\<exists>v. FindTextureID s tg = Inr v) \<and> (\<exists>v. FindTextureSlot s tg = Inr v)"
  proof (cases "tg \<in> set (map TEXTURE_INFO.tag (loaded s))")
    case False
    with miss show ?thesis by blast
  next
    case True
    from first_occurrence [OF this] obtain k where
      k: "k < length (loaded s)" "map TEXTURE_INFO.tag (loaded s) ! k = tg"
         "tg \<notin> set (take k (map TEXTURE_INFO.tag (loaded s)))" by auto
    then have "TEXTURE_INFO.tag (loaded s ! k) = tg"
      "tg \<notin> set (map TEXTURE_INFO.tag (take k (loaded s)))"
      by (simp_all add: take_map)
    with hit k(1) show ?thesis by blast
  qed
  from miss hit total show ?thesis by (auto simp: sint_small)
qed


lemma duplicate_tag_loads_state:
  "\<exists>s. CreateGLTextures (new_SceneManager None) duplicate_tag_loads = Inr s \<and> registry_ok s \<and>
     m_loadedTextures s = 3 \<and> filter is_deletion (gl_calls s) = [] \<and>
     loaded s = [\<lparr>ID = 1, TEXTURE_INFO.tag = ''marble''\<rparr>, \<lparr>ID = 2, TEXTURE_INFO.tag = ''wood''\<rparr>,
                 \<lparr>ID = 3, TEXTURE_INFO.tag = ''marble''\<rparr>]"
  by (simp add: duplicate_tag_loads_def new_SceneManager_def CreateGLTexture_def
      register_texture_def Let_def registry_ok_def loaded_def replicate_16)

theorem FindTexture_first_match_witness:
  "(case CreateGLTextures (new_SceneManager None) duplicate_tag_loads of
      Inl e \<Rightarrow> False
    | Inr s \<Rightarrow>
        registry_ok s \<and>
        FindTextureID s ''marble'' = Inr 1 \<and> FindTextureSlot s ''marble'' = Inr 0 \<and>
        FindTextureID s ''wood'' = Inr 2 \<and> FindTextureSlot s ''wood'' = Inr 1 \<and>
        FindTextureID s ''tile'' = Inr (- 1) \<and> FindTextureSlot s ''tile'' = Inr (- 1))"
proof -
  from duplicate_tag_loads_state obtain s where
    s: "CreateGLTextures (new_SceneManager None) duplicate_tag_loads = Inr s" and
    ok: "registry_ok s" and
    ld: "loaded s = [\<lparr>ID = 1, TEXTURE_INFO.tag = ''marble''\<rparr>, \<lparr>ID = 2, TEXTURE_INFO.tag = ''wood''\<rparr>,
                     \<lparr>ID = 3, TEXTURE_INFO.tag = ''marble''\<rparr>]"
    by blast
  note th = FindTexture_first_match [OF ok]
  from th [of "''marble''" 0] ld
  have marble: "FindTextureID s ''marble'' = Inr 1 \<and> FindTextureSlot s ''marble'' = Inr 0"
    by simp
  from th [of "''wood''" 1] ld
  have wood: "FindTextureID s ''wood'' = Inr 2 \<and> FindTextureSlot s ''wood'' = Inr 1"
    by simp
  from th [of "''tile''" 0] ld
  have tile: "FindTextureID s ''tile'' = Inr (- 1) \<and> FindTextureSlot s ''tile'' = Inr (- 1)"
    by simp
  from s ok marble wood tile show ?thesis by simp
qed

subsection \<open>Material lookup\<close>

lemma FindMaterial_loop_found: "FindMaterial_loop mats tg index True m = Inr m"
  by (simp add: FindMaterial_loop.simps)

lemma FindMaterial_loop_scan:
  assumes "int (length mats) \<le> INT_MAX" "0 \<le> index"
  shows "FindMaterial_loop mats tg index False m =
           Inr (case find (\<lambda>e. OBJECT_MATERIAL.tag e = tg) (drop (nat index) mats) of
                  None \<Rightarrow> m
                | Some e \<Rightarrow> m\<lparr>diffuseColor := diffuseColor e,
                               specularColor := specularColor e,
                               shininess := shininess e\<rparr>)"
  using assms
proof (induction "length mats - nat index" arbitrary: index)
  case 0
  then have "\<not> index < int (length mats)" by linarith
  moreover from 0 have "drop (nat index) mats = []" by simp
  ultimately show ?case by (subst FindMaterial_loop.simps) simp
next
  case (Suc n)
  then have lt: "index < int (length mats)" by linarith
  with Suc.prems have nmax: "index \<noteq> INT_MAX" by linarith
  from lt Suc.prems have dr: "drop (nat index) mats = mats ! nat index # drop (nat (index + 1)) mats"
    by (simp add: Cons_nth_drop_Suc nat_add_distrib)
  show ?case
  proof (cases "OBJECT_MATERIAL.tag (mats ! nat index) = tg")
    case True
    with lt Suc.prems dr show ?thesis
      by (subst FindMaterial_loop.simps) (simp add: FindMaterial_loop_found)
  next
    case False
    have "FindMaterial_loop mats tg (index + 1) False m =
           Inr (case find (\<lambda>e. OBJECT_MATERIAL.tag e = tg) (drop (nat (index + 1)) mats) of
                  None \<Rightarrow> m
                | Some e \<Rightarrow> m\<lparr>diffuseColor := diffuseColor e,
                               specularColor := specularColor e,
                               shininess := shininess e\<rparr>)"
      using Suc.hyps(2) Suc.prems by (intro Suc.hyps(1)) auto
    with False lt Suc.prems nmax dr show ?thesis
      by (subst FindMaterial_loop.simps) simp
  qed
qed

text \<open>
  Claim C1. For a catalogue of at most \<open>INT_MAX\<close> entries, every tag and every prior
  content of the out-parameter: \<open>FindMaterial\<close> returns \<open>false\<close> and leaves the
  out-parameter alone when the catalogue is empty; it returns \<open>true\<close> whenever the
  catalogue is non-empty, whether or not a tag matches. When no entry has the tag the
  out-parameter keeps its prior contents; when some entry has it, the first such
  entry's \<open>diffuseColor\<close>, \<open>specularColor\<close> and \<open>shininess\<close> are written into it and
  its other field is kept.
\<close>

theorem FindMaterial_result:
  "int (length (m_objectMaterials s)) \<le> INT_MAX \<Longrightarrow>
     (m_objectMaterials s = [] \<longrightarrow> FindMaterial s tg material = Inr (False, material)) \<and>
     (m_objectMaterials s \<noteq> [] \<longrightarrow>
        (\<exists>material'. FindMaterial s tg material = Inr (True, material'))) \<and>
     (m_objectMaterials s \<noteq> [] \<and>
      find (\<lambda>e. OBJECT_MATERIAL.tag e = tg) (m_objectMaterials s) = None \<longrightarrow>
        FindMaterial s tg material = Inr (True, material)) \<and>
     (find (\<lambda>e. OBJECT_MATERIAL.tag e = tg) (m_objectMaterials s) = Some e \<longrightarrow>
        FindMaterial s tg material =
          Inr (True, material\<lparr>diffuseColor := diffuseColor e,
                             specularColor := specularColor e,
                             shininess := shininess e\<rparr>))"
  using FindMaterial_loop_scan [of "m_objectMaterials s" 0 tg material]
  by (auto simp: FindMaterial_def)

theorem FindMaterial_result_witness:
  "FindMaterial (new_SceneManager None) ''wood'' prior_material = Inr (False, prior_material) \<and>
   FindMaterial (DefineObjectMaterials (new_SceneManager None)) ''glass'' prior_material =
     Inr (True, prior_material) \<and>
   FindMaterial (DefineObjectMaterials (new_SceneManager None)) ''wood'' prior_material =
     Inr (True, prior_material\<lparr>diffuseColor := (0.6, 0.5, 0.2),
                               specularColor := (0.5, 0.2, 0.5),
                               shininess := 1\<rparr>)"
  using
    FindMaterial_result [of "new_SceneManager None" "''wood''" prior_material]
    FindMaterial_result [of "DefineObjectMaterials (new_SceneManager None)" "''glass''"
      prior_material]
    FindMaterial_result [of "DefineObjectMaterials (new_SceneManager None)" "''wood''"
      prior_material
      "\<lparr>diffuseColor = (0.6, 0.5, 0.2), specularColor = (0.5, 0.2, 0.5), shininess = 1,
        OBJECT_MATERIAL.tag = ''wood''\<rparr>"]
  by (simp add: new_SceneManager_def DefineObjectMaterials_def INT_MAX_def)

subsection \<open>Loading, binding and destroying textures\<close>

lemma TEXTURE_INFO_overwrite:
  "(e :: TEXTURE_INFO)\<lparr>ID := a, TEXTURE_INFO.tag := b\<rparr> = \<lparr>ID = a, TEXTURE_INFO.tag = b\<rparr>"
  by (cases e) simp

lemma register_texture_room:
  assumes "registry_ok s" "m_loadedTextures s < int (length (m_textureIDs s))"
  shows "\<exists>s'. register_texture s textureID tg = Inr (True, s') \<and> registry_ok s' \<and>
           loaded s' = loaded s @ [\<lparr>ID = textureID, TEXTURE_INFO.tag = tg\<rparr>] \<and>
           length (m_textureIDs s') = length (m_textureIDs s)"
proof -
  let ?n = "nat (m_loadedTextures s)"
  from assms have n: "0 \<le> m_loadedTextures s" "?n < length (m_textureIDs s)"
    by (simp_all add: registry_ok_def)
  have "nat (m_loadedTextures s + 1) = Suc ?n" using n by simp
  moreover have "take (Suc ?n) ((m_textureIDs s)[?n := \<lparr>ID = textureID, TEXTURE_INFO.tag = tg\<rparr>])
      = take ?n (m_textureIDs s) @ [\<lparr>ID = textureID, TEXTURE_INFO.tag = tg\<rparr>]"
    using n by (simp add: take_Suc_conv_app_nth)
  ultimately show ?thesis using assms n
    by (simp add: register_texture_def Let_def registry_ok_def loaded_def TEXTURE_INFO_overwrite)
qed

lemma register_texture_full:
  assumes "registry_ok s" "m_loadedTextures s = int (length (m_textureIDs s))"
  shows "register_texture s textureID tg = Inl ArrayIndexOutOfBounds"
  using assms by (simp add: register_texture_def Let_def)

lemma registry_ok_gl_calls [simp]: "registry_ok (s\<lparr>gl_calls := g\<rparr>) = registry_ok s"
  by (simp add: registry_ok_def)

lemma loaded_gl_calls [simp]: "loaded (s\<lparr>gl_calls := g\<rparr>) = loaded s"
  by (simp add: loaded_def)

lemma CreateGLTexture_success:
  assumes "registry_ok s" "m_loadedTextures s < int (length (m_textureIDs s))"
    and "load_succeeds (filename, tg, image_data, textureID)"
  shows "\<exists>s'. CreateGLTexture s filename tg image_data textureID = Inr (True, s') \<and>
           registry_ok s' \<and>
           loaded s' = loaded s @ [entry_of (filename, tg, image_data, textureID)] \<and>
           length (m_textureIDs s') = length (m_textureIDs s)"
proof -
  from assms(3) obtain width height colorChannels where
    img: "image_data = Some (width, height, colorChannels)" and
    ch: "colorChannels = 3 \<or> colorChannels = 4"
    by (cases image_data) auto
  have "\<exists>s'. register_texture (s\<lparr>gl_calls := g\<rparr>) textureID tg = Inr (True, s') \<and> registry_ok s' \<and>
           loaded s' = loaded s @ [\<lparr>ID = textureID, TEXTURE_INFO.tag = tg\<rparr>] \<and>
           length (m_textureIDs s') = length (m_textureIDs s)" for g
    using register_texture_room [of "s\<lparr>gl_calls := g\<rparr>" textureID tg] assms(1,2) by simp
  then show ?thesis using img ch
    by (auto simp: CreateGLTexture_def Let_def)
qed

lemma CreateGLTexture_full:
  assumes "registry_ok s" "m_loadedTextures s = int (length (m_textureIDs s))"
    and "load_succeeds (filename, tg, image_data, textureID)"
  shows "CreateGLTexture s filename tg image_data textureID = Inl ArrayIndexOutOfBounds"
proof -
  from assms(3) obtain width height colorChannels where
    img: "image_data = Some (width, height, colorChannels)" and
    ch: "colorChannels = 3 \<or> colorChannels = 4"
    by (cases image_data) auto
  have "register_texture (s\<lparr>gl_calls := g\<rparr>) textureID tg = Inl ArrayIndexOutOfBounds" for g
    using register_texture_full [of "s\<lparr>gl_calls := g\<rparr>" textureID tg] assms(1,2) by simp
  then show ?thesis using img ch
    by (auto simp: CreateGLTexture_def Let_def)
qed

lemma CreateGLTexture_rejected:
  assumes "\<not> load_succeeds (filename, tg, image_data, textureID)"
  shows "\<exists>s'. CreateGLTexture s filename tg image_data textureID = Inr (False, s') \<and>
           m_loadedTextures s' = m_loadedTextures s \<and> m_textureIDs s' = m_textureIDs s"
  using assms by (cases image_data) (auto simp: CreateGLTexture_def Let_def)

lemma CreateGLTextures_room:
  assumes "registry_ok s"
    and "nat (m_loadedTextures s) + length (filter load_succeeds loads) \<le> length (m_textureIDs s)"
  shows "\<exists>s'. CreateGLTextures s loads = Inr s' \<and> registry_ok s' \<and>
           loaded s' = loaded s @ map entry_of (filter load_succeeds loads) \<and>
           length (m_textureIDs s') = length (m_textureIDs s)"
  using assms
proof (induction loads arbitrary: s)
  case Nil
  then show ?case by simp
next
  case (Cons l loads)
  obtain filename tg image_data textureID where l: "l = (filename, tg, image_data, textureID)"
    by (cases l) auto
  show ?case
  proof (cases "load_succeeds l")
    case True
    with Cons.prems have "m_loadedTextures s < int (length (m_textureIDs s))"
      by (simp add: registry_ok_def)
    from CreateGLTexture_success [OF Cons.prems(1) this] True l obtain s1 where
      s1: "CreateGLTexture s filename tg image_data textureID = Inr (True, s1)"
        "registry_ok s1" "loaded s1 = loaded s @ [entry_of l]"
        "length (m_textureIDs s1) = length (m_textureIDs s)"
      by blast
    from s1(2,3) Cons.prems(1) have "nat (m_loadedTextures s1) = Suc (nat (m_loadedTextures s))"
      by (metis length_loaded length_append_singleton)
    with Cons.prems True s1
    have "nat (m_loadedTextures s1) + length (filter load_succeeds loads) \<le> length (m_textureIDs s1)"
      by simp
    from Cons.IH [OF s1(2) this] s1 l True show ?thesis by auto
  next
    case False
    from CreateGLTexture_rejected [of filename tg image_data textureID s] False l obtain s1 where
      s1: "CreateGLTexture s filename tg image_data textureID = Inr (False, s1)"
        "m_loadedTextures s1 = m_loadedTextures s" "m_textureIDs s1 = m_textureIDs s"
      by auto
    with Cons.prems have ok1: "registry_ok s1" and ld: "loaded s1 = loaded s"
      by (simp_all add: registry_ok_def loaded_def)
    from Cons.prems False s1
    have "nat (m_loadedTextures s1) + length (filter load_succeeds loads) \<le> length (m_textureIDs s1)"
      by simp
    from Cons.IH [OF ok1 this] s1 l False ld show ?thesis by auto
  qed
qed

lemma CreateGLTextures_overflow:
  assumes "registry_ok s"
    and "nat (m_loadedTextures s) + length (filter load_succeeds loads) > length (m_textureIDs s)"
  shows "CreateGLTextures s loads = Inl ArrayIndexOutOfBounds"
  using assms
proof (induction loads arbitrary: s)
  case Nil
  then show ?case by (simp add: registry_ok_def) linarith
next
  case (Cons l loads)
  obtain filename tg image_data textureID where l: "l = (filename, tg, image_data, textureID)"
    by (cases l) auto
  show ?case
  proof (cases "load_succeeds l")
    case True
    show ?thesis
    proof (cases "m_loadedTextures s = int (length (m_textureIDs s))")
      case full: True
      from CreateGLTexture_full [OF Cons.prems(1) full] True l show ?thesis by simp
    next
      case False
      with Cons.prems have "m_loadedTextures s < int (length (m_textureIDs s))"
        by (simp add: registry_ok_def)
      from CreateGLTexture_success [OF Cons.prems(1) this] True l obtain s1 where
        s1: "CreateGLTexture s filename tg image_data textureID = Inr (True, s1)"
          "registry_ok s1" "loaded s1 = loaded s @ [entry_of l]"
          "length (m_textureIDs s1) = length (m_textureIDs s)"
        by blast
      from s1(2,3) Cons.prems(1) have "nat (m_loadedTextures s1) = Suc (nat (m_loadedTextures s))"
        by (metis length_loaded length_append_singleton)
      with Cons.prems True s1
      have "nat (m_loadedTextures s1) + length (filter load_succeeds loads) > length (m_textureIDs s1)"
        by simp
      from Cons.IH [OF s1(2) this] s1 l show ?thesis by simp
    qed
  next
    case False
    from CreateGLTexture_rejected [of filename tg image_data textureID s] False l obtain s1 where
      s1: "CreateGLTexture s filename tg image_data textureID = Inr (False, s1)"
        "m_loadedTextures s1 = m_loadedTextures s" "m_textureIDs s1 = m_textureIDs s"
      by auto
    with Cons.prems have ok1: "registry_ok s1"
      by (simp_all add: registry_ok_def)
    from Cons.prems False s1
    have "nat (m_loadedTextures s1) + length (filter load_succeeds loads) > length (m_textureIDs s1)"
      by simp
    from Cons.IH [OF ok1 this] s1 l show ?thesis by simp
  qed
qed

lemma BindGLTextures_loop_calls:
  assumes "registry_ok s" "0 \<le> i" "i \<le> m_loadedTextures s"
  shows "BindGLTextures_loop s i =
           Inr (s\<lparr>gl_calls := gl_calls s @
                  concat (map (bind_calls (loaded s)) [nat i..<nat (m_loadedTextures s)])\<rparr>)"
  using assms
proof (induction "nat (m_loadedTextures s - i)" arbitrary: s i)
  case 0
  then have "i = m_loadedTextures s" by simp
  then show ?case by (subst BindGLTextures_loop.simps) simp
next
  case (Suc n)
  then have lt: "i < m_loadedTextures s" by linarith
  note at = textureIDs_at_loaded [OF Suc.prems(1,2) lt]
  let ?s1 = "s\<lparr>gl_calls := gl_calls s @ bind_calls (loaded s) (nat i)\<rparr>"
  have up: "[nat i..<nat (m_loadedTextures s)] = nat i # [nat (i + 1)..<nat (m_loadedTextures s)]"
    using lt Suc.prems(2) by (simp add: upt_conv_Cons nat_index_Suc)
  have "BindGLTextures_loop ?s1 (i + 1) =
          Inr (?s1\<lparr>gl_calls := gl_calls ?s1 @
                  concat (map (bind_calls (loaded ?s1)) [nat (i + 1)..<nat (m_loadedTextures ?s1)])\<rparr>)"
    using Suc.hyps(2) Suc.prems lt by (intro Suc.hyps(1)) auto
  then show ?case using lt at up Suc.prems(2)
    by (subst BindGLTextures_loop.simps) (simp add: bind_calls_def)
qed

lemma DestroyGLTextures_loop_calls:
  assumes "registry_ok s" "0 \<le> i" "i \<le> m_loadedTextures s"
  shows "\<exists>s'. DestroyGLTextures_loop gen s i = Inr s' \<and>
           gl_calls s' = gl_calls s @
             map (\<lambda>j. glGenTextures (gen (int j))) [nat i..<nat (m_loadedTextures s)] \<and>
           m_loadedTextures s' = m_loadedTextures s \<and>
           length (m_textureIDs s') = length (m_textureIDs s) \<and>
           map ID (drop (nat i) (loaded s')) =
             map (\<lambda>j. gen (int j)) [nat i..<nat (m_loadedTextures s)] \<and>
           take (nat i) (loaded s') = take (nat i) (loaded s) \<and>
           map TEXTURE_INFO.tag (loaded s') = map TEXTURE_INFO.tag (loaded s)"
  using assms
proof (induction "nat (m_loadedTextures s - i)" arbitrary: s i)
  case 0
  then have "i = m_loadedTextures s" by simp
  with 0 show ?case
    by (subst DestroyGLTextures_loop.simps) (simp add: length_loaded)
next
  case (Suc n)
  then have lt: "i < m_loadedTextures s" by linarith
  with Suc.prems have inb: "nat i < length (m_textureIDs s)" "nat i < nat (m_loadedTextures s)"
    by (simp_all add: registry_ok_def)
  let ?s1 = "s\<lparr>gl_calls := gl_calls s @ [glGenTextures (gen i)],
                m_textureIDs := (m_textureIDs s)[nat i := (m_textureIDs s ! nat i)\<lparr>ID := gen i\<rparr>]\<rparr>"
  have ok1: "registry_ok ?s1" using Suc.prems(1) by (simp add: registry_ok_def)
  have up: "[nat i..<nat (m_loadedTextures s)] = nat i # [nat (i + 1)..<nat (m_loadedTextures s)]"
    using lt Suc.prems(2) by (simp add: upt_conv_Cons nat_index_Suc)
  have ld1: "loaded ?s1 = (loaded s)[nat i := (loaded s ! nat i)\<lparr>ID := gen i\<rparr>]"
    using inb by (simp add: loaded_def take_update_swap)
  have n_eq: "n = nat (m_loadedTextures ?s1 - (i + 1))" using Suc.hyps(2) by simp
  have b1: "0 \<le> i + 1" using Suc.prems(2) by simp
  have b2: "i + 1 \<le> m_loadedTextures ?s1" using lt by simp
  from Suc.hyps(1) [OF n_eq ok1 b1 b2]
  obtain s' where s':
    "DestroyGLTextures_loop gen ?s1 (i + 1) = Inr s'"
    "gl_calls s' = (gl_calls s @ [glGenTextures (gen i)]) @
       map (\<lambda>j. glGenTextures (gen (int j))) [nat (i + 1)..<nat (m_loadedTextures s)]"
    "m_loadedTextures s' = m_loadedTextures s"
    "length (m_textureIDs s') = length (m_textureIDs s)"
    "map ID (drop (nat (i + 1)) (loaded s')) =
       map (\<lambda>j. gen (int j)) [nat (i + 1)..<nat (m_loadedTextures s)]"
    "take (nat (i + 1)) (loaded s') = take (nat (i + 1)) (loaded ?s1)"
    "map TEXTURE_INFO.tag (loaded s') = map TEXTURE_INFO.tag (loaded ?s1)"
    by auto
  have ok': "registry_ok s'" using ok1 s'(3,4) by (simp add: registry_ok_def)
  have len': "length (loaded s') = nat (m_loadedTextures s)"
    using length_loaded [OF ok'] s'(3) by simp
  have len: "length (loaded s) = nat (m_loadedTextures s)"
    using length_loaded [OF Suc.prems(1)] .
  have nth_i: "loaded s' ! nat i = (loaded s ! nat i)\<lparr>ID := gen i\<rparr>"
  proof -
    have "loaded s' ! nat i = take (nat (i + 1)) (loaded s') ! nat i"
      using Suc.prems(2) by (simp add: nat_index_Suc)
    also have "\<dots> = take (nat (i + 1)) (loaded ?s1) ! nat i" by (simp only: s'(6))
    also have "\<dots> = (loaded s ! nat i)\<lparr>ID := gen i\<rparr>"
      using Suc.prems(2) inb len by (simp add: nat_index_Suc ld1)
    finally show ?thesis .
  qed
  have dr: "drop (nat i) (loaded s') = loaded s' ! nat i # drop (nat (i + 1)) (loaded s')"
    using inb len' Suc.prems(2) by (simp add: Cons_nth_drop_Suc nat_index_Suc)
  have tk: "take (nat i) (loaded s') = take (nat i) (loaded s)"
  proof -
    have "take (nat i) (loaded s') = take (nat i) (take (nat (i + 1)) (loaded s'))"
      using Suc.prems(2) by (simp add: nat_index_Suc min_def)
    also have "\<dots> = take (nat i) (take (nat (i + 1)) (loaded ?s1))" by (simp only: s'(6))
    also have "\<dots> = take (nat i) (loaded s)"
      using Suc.prems(2) by (simp add: nat_index_Suc min_def ld1)
    finally show ?thesis .
  qed
  have tags: "map TEXTURE_INFO.tag (loaded s') = map TEXTURE_INFO.tag (loaded s)"
    using s'(7) inb len by (simp add: ld1 map_update list_update_same_conv)
  have "DestroyGLTextures_loop gen s i = Inr s'"
    using lt Suc.prems(2) inb s'(1) by (subst DestroyGLTextures_loop.simps) simp
  moreover have "gl_calls s' = gl_calls s @
             map (\<lambda>j. glGenTextures (gen (int j))) [nat i..<nat (m_loadedTextures s)]"
    using s'(2) up Suc.prems(2) by simp
  moreover have "map ID (drop (nat i) (loaded s')) =
             map (\<lambda>j. gen (int j)) [nat i..<nat (m_loadedTextures s)]"
    using dr nth_i s'(5) up Suc.prems(2) by simp
  ultimately show ?case using s'(3,4) tk tags by simp
qed


lemma upt_0_3: "[0..<3] = [0, 1, 2]"
  by (simp add: numeral_3_eq_3)

text \<open>
  Claim C4. What \<open>DestroyGLTextures\<close> does, in a state whose loaded count lies within
  the array: for each loaded entry in turn it calls \<open>glGenTextures\<close>, an allocation,
  and stores the new name in the entry, losing the old one. It issues no deletion call:
  the deletion calls after it are those before it. The count and the tags are unchanged.
\<close>

theorem DestroyGLTextures_allocates:
  "registry_ok s \<Longrightarrow>
     \<exists>s'. DestroyGLTextures gen s = Inr s' \<and>
       gl_calls s' = gl_calls s @
         map (\<lambda>j. glGenTextures (gen (int j))) [0..<nat (m_loadedTextures s)] \<and>
       filter is_deletion (gl_calls s') = filter is_deletion (gl_calls s) \<and>
       m_loadedTextures s' = m_loadedTextures s \<and>
       map ID (loaded s') = map (\<lambda>j. gen (int j)) [0..<nat (m_loadedTextures s)] \<and>
       map TEXTURE_INFO.tag (loaded s') = map TEXTURE_INFO.tag (loaded s)"
proof -
  assume ok: "registry_ok s"
  then have "0 \<le> m_loadedTextures s" by (simp add: registry_ok_def)
  from DestroyGLTextures_loop_calls [OF ok _ this, where gen = gen]
  obtain s' where s': "DestroyGLTextures_loop gen s 0 = Inr s'"
    "gl_calls s' = gl_calls s @
         map (\<lambda>j. glGenTextures (gen (int j))) [0..<nat (m_loadedTextures s)]"
    "m_loadedTextures s' = m_loadedTextures s"
    "map ID (loaded s') = map (\<lambda>j. gen (int j)) [0..<nat (m_loadedTextures s)]"
    "map TEXTURE_INFO.tag (loaded s') = map TEXTURE_INFO.tag (loaded s)"
    by auto
  have "filter is_deletion (gl_calls s') = filter is_deletion (gl_calls s)"
    by (simp add: s'(2) filter_map o_def)
  with s' show ?thesis by (simp add: DestroyGLTextures_def)
qed

theorem DestroyGLTextures_allocates_witness:
  "(case CreateGLTextures (new_SceneManager None) duplicate_tag_loads of
      Inl e \<Rightarrow> False
    | Inr s \<Rightarrow>
        registry_ok s \<and> map ID (loaded s) = [1, 2, 3] \<and>
        (case DestroyGLTextures (\<lambda>i. word_of_int (i + 4)) s of
           Inl e \<Rightarrow> False
         | Inr s' \<Rightarrow>
             gl_calls s' = gl_calls s @ [glGenTextures 4, glGenTextures 5, glGenTextures 6] \<and>
             filter is_deletion (gl_calls s') = [] \<and>
             m_loadedTextures s' = 3 \<and>
             map ID (loaded s') = [4, 5, 6]))"
proof -
  from duplicate_tag_loads_state obtain s where
    s: "CreateGLTextures (new_SceneManager None) duplicate_tag_loads = Inr s" and
    ok: "registry_ok s" and n: "m_loadedTextures s = 3" and
    nd: "filter is_deletion (gl_calls s) = []" and
    ld: "loaded s = [\<lparr>ID = 1, TEXTURE_INFO.tag = ''marble''\<rparr>, \<lparr>ID = 2, TEXTURE_INFO.tag = ''wood''\<rparr>,
                     \<lparr>ID = 3, TEXTURE_INFO.tag = ''marble''\<rparr>]"
    by blast
  from DestroyGLTextures_allocates [OF ok, of "\<lambda>i. word_of_int (i + 4)"] n nd
  obtain s' where "DestroyGLTextures (\<lambda>i. word_of_int (i + 4)) s = Inr s'"
    "gl_calls s' = gl_calls s @ [glGenTextures 4, glGenTextures 5, glGenTextures 6]"
    "filter is_deletion (gl_calls s') = []" "m_loadedTextures s' = 3"
    "map ID (loaded s') = [4, 5, 6]"
    by (auto simp: upt_0_3)
  with s ok ld show ?thesis by simp
qed

text \<open>
  Claim C6, as amended. From a state whose loaded count lies within the 16-entry
  array, every sequence of loads whose successful ones fit into the remaining slots
  runs to the end. The entries then are the earlier ones, unchanged, followed by the
  successful loads in call order, so each sits at the slot equal to its insertion
  order; the count has grown by the number of successful loads and is at most 16; and
  \<open>BindGLTextures\<close> binds, for each slot \<open>j\<close> in turn, texture unit \<open>GL_TEXTURE0 + j\<close>
  to the entry's name. The source makes no capacity check of its own.
\<close>

theorem CreateGLTextures_within_capacity:
  "registry_ok s \<Longrightarrow> length (m_textureIDs s) = 16 \<Longrightarrow>
   nat (m_loadedTextures s) + length (filter load_succeeds loads) \<le> 16 \<Longrightarrow>
     \<exists>s'. CreateGLTextures s loads = Inr s' \<and>
       loaded s' = loaded s @ map entry_of (filter load_succeeds loads) \<and>
       m_loadedTextures s' = m_loadedTextures s + int (length (filter load_succeeds loads)) \<and>
       m_loadedTextures s' \<le> 16 \<and>
       BindGLTextures s' =
         Inr (s'\<lparr>gl_calls := gl_calls s' @
                concat (map (bind_calls (loaded s')) [0..<length (loaded s')])\<rparr>)"
proof -
  assume ok: "registry_ok s" and len: "length (m_textureIDs s) = 16"
    and room: "nat (m_loadedTextures s) + length (filter load_succeeds loads) \<le> 16"
  from CreateGLTextures_room [OF ok, of loads] len room obtain s' where
    s': "CreateGLTextures s loads = Inr s'" "registry_ok s'"
      "loaded s' = loaded s @ map entry_of (filter load_succeeds loads)"
      "length (m_textureIDs s') = length (m_textureIDs s)"
    by auto
  have n': "nat (m_loadedTextures s') = nat (m_loadedTextures s) + length (filter load_succeeds loads)"
    using length_loaded [OF s'(2)] length_loaded [OF ok] s'(3) by simp
  from ok s'(2) have nn: "0 \<le> m_loadedTextures s" "0 \<le> m_loadedTextures s'"
    by (simp_all add: registry_ok_def)
  with n' have cnt: "m_loadedTextures s' = m_loadedTextures s + int (length (filter load_succeeds loads))"
    by linarith
  with room nn have le: "m_loadedTextures s' \<le> 16" by linarith
  have "BindGLTextures s' =
         Inr (s'\<lparr>gl_calls := gl_calls s' @
                concat (map (bind_calls (loaded s')) [0..<length (loaded s')])\<rparr>)"
    using BindGLTextures_loop_calls [OF s'(2), of 0] nn(2) length_loaded [OF s'(2)]
    by (simp add: BindGLTextures_def)
  with s'(1,3) cnt le show ?thesis by simp
qed

theorem CreateGLTextures_within_capacity_witness:
  "(case CreateGLTextures (new_SceneManager None) duplicate_tag_loads of
      Inl e \<Rightarrow> False
    | Inr s' \<Rightarrow>
        m_loadedTextures s' = 3 \<and>
        loaded s' = [\<lparr>ID = 1, TEXTURE_INFO.tag = ''marble''\<rparr>, \<lparr>ID = 2, TEXTURE_INFO.tag = ''wood''\<rparr>,
                     \<lparr>ID = 3, TEXTURE_INFO.tag = ''marble''\<rparr>] \<and>
        BindGLTextures s' =
          Inr (s'\<lparr>gl_calls := gl_calls s' @
                 [glActiveTexture 33984, glBindTexture 1,
                  glActiveTexture 33985, glBindTexture 2,
                  glActiveTexture 33986, glBindTexture 3]\<rparr>))"
proof -
  have ok: "registry_ok (new_SceneManager None)"
    and len: "length (m_textureIDs (new_SceneManager None)) = 16"
    and room: "nat (m_loadedTextures (new_SceneManager None)) +
                 length (filter load_succeeds duplicate_tag_loads) \<le> 16"
    and ld0: "loaded (new_SceneManager None) = []"
    by (simp_all add: new_SceneManager_def registry_ok_def duplicate_tag_loads_def loaded_def)
  from CreateGLTextures_within_capacity [OF ok len room] ld0
  show ?thesis
    by (auto simp: duplicate_tag_loads_def new_SceneManager_def bind_calls_def GL_TEXTURE0_def
        upt_0_3)
qed

text \<open>
  Counterexample to claim C6 as stated: the seventeenth successful load from a new
  scene manager is not rejected and does not leave a well-defined state; it writes
  past the end of the array.
\<close>

theorem seventeenth_load_out_of_bounds:
  "CreateGLTextures (new_SceneManager None) seventeen_loads = Inl ArrayIndexOutOfBounds"
proof -
  have ok: "registry_ok (new_SceneManager None)"
    by (simp add: new_SceneManager_def registry_ok_def)
  have "filter load_succeeds seventeen_loads = seventeen_loads"
    by (simp add: seventeen_loads_def filter_map o_def)
  then have "length (filter load_succeeds seventeen_loads) = 17"
    by (simp add: seventeen_loads_def)
  then have "nat (m_loadedTextures (new_SceneManager None)) +
      length (filter load_succeeds seventeen_loads) > length (m_textureIDs (new_SceneManager None))"
    by (simp add: new_SceneManager_def)
  from CreateGLTextures_overflow [OF ok this] show ?thesis .
qed

subsection \<open>The model matrix\<close>

lemma glm_scale_spec: "glm_scale v = spec_Scale v"
  by (cases v) (simp add: glm_scale_def mat4_identity_def)

lemma glm_translate_spec: "glm_translate v = spec_Translation v"
  by (cases v) (simp add: glm_translate_def mat4_identity_def)

lemma glm_rotate_X_spec: "glm_rotate (glm_radians d) (1, 0, 0) = spec_RotationX d"
  by (simp add: glm_rotate_def glm_radians_def mat4_identity_def spec_RotationX_def Let_def)

lemma glm_rotate_Y_spec: "glm_rotate (glm_radians d) (0, 1, 0) = spec_RotationY d"
  by (simp add: glm_rotate_def glm_radians_def mat4_identity_def spec_RotationY_def Let_def)

lemma glm_rotate_Z_spec: "glm_rotate (glm_radians d) (0, 0, 1) = spec_RotationZ d"
  by (simp add: glm_rotate_def glm_radians_def mat4_identity_def spec_RotationZ_def Let_def)

lemma mat4_times_vec4_assoc:
  "mat4_times_vec4 (mat4_times a b) v = mat4_times_vec4 a (mat4_times_vec4 b v)"
proof -
  obtain a0 a1 a2 a3 where a: "a = (a0, a1, a2, a3)" by (cases a) auto
  obtain b0 b1 b2 b3 where b: "b = (b0, b1, b2, b3)" by (cases b) auto
  obtain x y z w where v: "v = (x, y, z, w)" by (cases v) auto
  obtain a00 a01 a02 a03 where a0: "a0 = (a00, a01, a02, a03)" by (cases a0) auto
  obtain a10 a11 a12 a13 where a1: "a1 = (a10, a11, a12, a13)" by (cases a1) auto
  obtain a20 a21 a22 a23 where a2: "a2 = (a20, a21, a22, a23)" by (cases a2) auto
  obtain a30 a31 a32 a33 where a3: "a3 = (a30, a31, a32, a33)" by (cases a3) auto
  obtain b00 b01 b02 b03 where b0: "b0 = (b00, b01, b02, b03)" by (cases b0) auto
  obtain b10 b11 b12 b13 where b1: "b1 = (b10, b11, b12, b13)" by (cases b1) auto
  obtain b20 b21 b22 b23 where b2: "b2 = (b20, b21, b22, b23)" by (cases b2) auto
  obtain b30 b31 b32 b33 where b3: "b3 = (b30, b31, b32, b33)" by (cases b3) auto
  show ?thesis
    unfolding a b v a0 a1 a2 a3 b0 b1 b2 b3
    by (simp add: algebra_simps)
qed

lemma mat4_times_assoc:
  "mat4_times (mat4_times a b) c = mat4_times a (mat4_times b c)"
  by (cases c) (simp add: mat4_times_vec4_assoc)


lemma modelView_of_spec:
  "modelView_of scaleXYZ xd yd zd positionXYZ =
     mat4_times (spec_Translation positionXYZ)
       (mat4_times (spec_RotationZ zd)
          (mat4_times (spec_RotationY yd)
             (mat4_times (spec_RotationX xd) (spec_Scale scaleXYZ))))"
  by (simp add: modelView_of_def Let_def glm_scale_spec glm_translate_spec glm_rotate_X_spec
      glm_rotate_Y_spec glm_rotate_Z_spec mat4_times_assoc)

lemma modelView_of_identity: "modelView_of (1, 1, 1) 0 0 0 (0, 0, 0) = mat4_identity"
  by (simp add: modelView_of_spec spec_RotationX_def spec_RotationY_def spec_RotationZ_def
      mat4_identity_def)

text \<open>
  Claim C2. \<open>SetTransformations\<close> is a function of its arguments. With a non-null
  shader manager it changes nothing but the shader manager, to which it sends the one
  call \<open>setMat4Value("model", M)\<close>. The matrix \<open>M\<close>, which the source builds from the
  GLM calls, is the product Translation \<cdot> RotationZ \<cdot> RotationY \<cdot> RotationX \<cdot> Scale of
  the spec's five factors, with the angles converted from degrees; applied to a
  vector it scales first, then rotates about X, about Y and about Z, and translates
  last. For scale (1, 1, 1), rotations 0 and translation (0, 0, 0) it is the identity.
\<close>

theorem SetTransformations_model_matrix:
  "m_pShaderManager s = Some calls \<Longrightarrow>
     SetTransformations s scaleXYZ xd yd zd positionXYZ =
       s\<lparr>m_pShaderManager := Some (calls @
           [setMat4Value ''model'' (modelView_of scaleXYZ xd yd zd positionXYZ)])\<rparr> \<and>
     modelView_of scaleXYZ xd yd zd positionXYZ =
       mat4_times (spec_Translation positionXYZ)
         (mat4_times (spec_RotationZ zd)
            (mat4_times (spec_RotationY yd)
               (mat4_times (spec_RotationX xd) (spec_Scale scaleXYZ)))) \<and>
     mat4_times_vec4 (modelView_of scaleXYZ xd yd zd positionXYZ) v =
       mat4_times_vec4 (spec_Translation positionXYZ)
         (mat4_times_vec4 (spec_RotationZ zd)
            (mat4_times_vec4 (spec_RotationY yd)
               (mat4_times_vec4 (spec_RotationX xd)
                  (mat4_times_vec4 (spec_Scale scaleXYZ) v)))) \<and>
     modelView_of (1, 1, 1) 0 0 0 (0, 0, 0) = mat4_identity"
proof (intro conjI)
  assume "m_pShaderManager s = Some calls"
  then show "SetTransformations s scaleXYZ xd yd zd positionXYZ =
       s\<lparr>m_pShaderManager := Some (calls @
           [setMat4Value ''model'' (modelView_of scaleXYZ xd yd zd positionXYZ)])\<rparr>"
    by (simp add: SetTransformations_def Let_def)
next
  show "modelView_of scaleXYZ xd yd zd positionXYZ =
       mat4_times (spec_Translation positionXYZ)
         (mat4_times (spec_RotationZ zd)
            (mat4_times (spec_RotationY yd)
               (mat4_times (spec_RotationX xd) (spec_Scale scaleXYZ))))"
    by (rule modelView_of_spec)
next
  show "mat4_times_vec4 (modelView_of scaleXYZ xd yd zd positionXYZ) v =
       mat4_times_vec4 (spec_Translation positionXYZ)
         (mat4_times_vec4 (spec_RotationZ zd)
            (mat4_times_vec4 (spec_RotationY yd)
               (mat4_times_vec4 (spec_RotationX xd)
                  (mat4_times_vec4 (spec_Scale scaleXYZ) v))))"
    by (simp only: modelView_of_spec mat4_times_vec4_assoc)
next
  show "modelView_of (1, 1, 1) 0 0 0 (0, 0, 0) = mat4_identity"
    by (rule modelView_of_identity)
qed

theorem SetTransformations_model_matrix_witness:
  "m_pShaderManager (new_SceneManager (Some [])) = Some [] \<and>
   SetTransformations (new_SceneManager (Some [])) (1, 1, 1) 0 0 0 (0, 0, 0) =
     (new_SceneManager (Some []))\<lparr>m_pShaderManager := Some
        [setMat4Value ''model'' ((1, 0, 0, 0), (0, 1, 0, 0), (0, 0, 1, 0), (0, 0, 0, 1))]\<rparr> \<and>
   SetTransformations (new_SceneManager (Some [])) (2, 3, 4) 0 0 90 (10, 3, 0) =
     (new_SceneManager (Some []))\<lparr>m_pShaderManager := Some
        [setMat4Value ''model'' ((0, 2, 0, 0), (- 3, 0, 0, 0), (0, 0, 4, 0), (10, 3, 0, 1))]\<rparr>"
proof -
  have h: "m_pShaderManager (new_SceneManager (Some [])) = Some []"
    by (simp add: new_SceneManager_def)
  note a = SetTransformations_model_matrix [OF h, of "(1, 1, 1)" 0 0 0 "(0, 0, 0)"]
  note b = SetTransformations_model_matrix [OF h, of "(2, 3, 4)" 0 0 90 "(10, 3, 0)"]
  have rz: "spec_RotationZ 90 = ((0, 1, 0, 0), (- 1, 0, 0, 0), (0, 0, 1, 0), (0, 0, 0, 1))"
    by (simp add: spec_RotationZ_def)
  have "modelView_of (2, 3, 4) 0 0 90 (10, 3, 0) =
          ((0, 2, 0, 0), (- 3, 0, 0, 0), (0, 0, 4, 0), (10, 3, 0, 1))"
    using b by (simp add: rz spec_RotationX_def spec_RotationY_def)
  with a b h show ?thesis by (simp add: mat4_identity_def)
qed

subsection \<open>Mouse movement\<close>




lemma sample_clamp_keeps_inside: "clamp_keeps_inside sample_clamp"
  by (simp add: clamp_keeps_inside_def sample_clamp_def)



text \<open>
  Claim C8. For every clamp of the camera step: on the first event (\<open>gFirstMouse\<close>
  set) the callback records the position in \<open>gLastX\<close>, \<open>gLastY\<close>, clears the flag and
  hands the camera the offsets (0, 0), so the yaw is unchanged and the pitch is the
  clamp of itself, unchanged when it lies strictly between the bounds and the clamp
  keeps what is inside. On every later event it hands the camera the offsets
  \<open>(x - gLastX, gLastY - y)\<close> and records the position: the yaw grows by sensitivity
  times \<open>x - gLastX\<close>, and the pitch is the clamp of the old pitch plus sensitivity
  times \<open>gLastY - y\<close>, which is that sum itself when it lies strictly between the
  bounds. Nothing else changes.
\<close>

theorem Mouse_Position_Callback_offsets:
  "(gFirstMouse vm \<longrightarrow>
      Mouse_Position_Callback clamp x y vm =
        vm\<lparr>gLastX := x, gLastY := y, gFirstMouse := False,
            g_pCamera := ProcessMouseMovement clamp 0 0 (g_pCamera vm)\<rparr> \<and>
      Yaw (g_pCamera (Mouse_Position_Callback clamp x y vm)) = Yaw (g_pCamera vm) \<and>
      Pitch (g_pCamera (Mouse_Position_Callback clamp x y vm)) = clamp (Pitch (g_pCamera vm)) \<and>
      (clamp_keeps_inside clamp \<and> - 89 < Pitch (g_pCamera vm) \<and> Pitch (g_pCamera vm) < 89 \<longrightarrow>
         Pitch (g_pCamera (Mouse_Position_Callback clamp x y vm)) = Pitch (g_pCamera vm))) \<and>
   (\<not> gFirstMouse vm \<longrightarrow>
      Mouse_Position_Callback clamp x y vm =
        vm\<lparr>gLastX := x, gLastY := y,
            g_pCamera :=
              ProcessMouseMovement clamp (x - gLastX vm) (gLastY vm - y) (g_pCamera vm)\<rparr> \<and>
      Yaw (g_pCamera (Mouse_Position_Callback clamp x y vm)) =
        Yaw (g_pCamera vm) + MouseSensitivity (g_pCamera vm) * (x - gLastX vm) \<and>
      Pitch (g_pCamera (Mouse_Position_Callback clamp x y vm)) =
        clamp (Pitch (g_pCamera vm) + MouseSensitivity (g_pCamera vm) * (gLastY vm - y)) \<and>
      (clamp_keeps_inside clamp \<and>
       - 89 < Pitch (g_pCamera vm) + MouseSensitivity (g_pCamera vm) * (gLastY vm - y) \<and>
       Pitch (g_pCamera vm) + MouseSensitivity (g_pCamera vm) * (gLastY vm - y) < 89 \<longrightarrow>
         Pitch (g_pCamera (Mouse_Position_Callback clamp x y vm)) =
           Pitch (g_pCamera vm) + MouseSensitivity (g_pCamera vm) * (gLastY vm - y)))"
  by (auto simp: Mouse_Position_Callback_def Let_def ProcessMouseMovement_def
      clamp_keeps_inside_def mult.commute)

theorem Mouse_Position_Callback_offsets_witness:
  "clamp_keeps_inside sample_clamp \<and>
   gFirstMouse (new_ViewManager \<lparr>Yaw = - 90, Pitch = 0, MouseSensitivity = 0.1\<rparr>) \<and>
   Mouse_Position_Callback sample_clamp 400 300
       (new_ViewManager \<lparr>Yaw = - 90, Pitch = 0, MouseSensitivity = 0.1\<rparr>) =
     (new_ViewManager \<lparr>Yaw = - 90, Pitch = 0, MouseSensitivity = 0.1\<rparr>)
       \<lparr>gLastX := 400, gLastY := 300, gFirstMouse := False\<rparr> \<and>
   Mouse_Position_Callback sample_clamp 410 280
       ((new_ViewManager \<lparr>Yaw = - 90, Pitch = 0, MouseSensitivity = 0.1\<rparr>)
          \<lparr>gLastX := 400, gLastY := 300, gFirstMouse := False\<rparr>) =
     (new_ViewManager \<lparr>Yaw = - 89, Pitch = 2, MouseSensitivity = 0.1\<rparr>)
       \<lparr>gLastX := 410, gLastY := 280, gFirstMouse := False\<rparr>"
  using
    Mouse_Position_Callback_offsets
      [of "new_ViewManager \<lparr>Yaw = - 90, Pitch = 0, MouseSensitivity = 0.1\<rparr>" sample_clamp 400 300]
    Mouse_Position_Callback_offsets
      [of "(new_ViewManager \<lparr>Yaw = - 90, Pitch = 0, MouseSensitivity = 0.1\<rparr>)
          \<lparr>gLastX := 400, gLastY := 300, gFirstMouse := False\<rparr>" sample_clamp 410 280]
    sample_clamp_keeps_inside
  by (simp add: new_ViewManager_def ProcessMouseMovement_def sample_clamp_def)

subsection \<open>Selecting a texture or a material that is not registered\<close>

lemma SetShaderTexture_absent:
  assumes "registry_ok s" "m_pShaderManager s = Some calls"
    and "tg \<notin> set (map TEXTURE_INFO.tag (loaded s))"
  shows "SetShaderTexture s tg =
           Inr (s\<lparr>m_pShaderManager := Some (calls @
                  [setIntValue ''bUseTexture'' 1, setSampler2DValue ''objectTexture'' (- 1)])\<rparr>)"
proof -
  from assms(3) have "\<forall>j. nat 0 \<le> j \<and> j < length (loaded s) \<longrightarrow> TEXTURE_INFO.tag (loaded s ! j) \<noteq> tg"
    using not_in_take_tags [of tg "length (loaded s)" "loaded s"] by simp
  with assms(1) have "FindTextureSlot s tg = Inr (- 1)"
    by (simp add: FindTextureSlot_def FindTextureSlot_loop_miss)
  with assms(2) show ?thesis by (simp add: SetShaderTexture_def)
qed

lemma SetShaderMaterial_other_uniforms:
  assumes "SetShaderMaterial s mtg uninit = Inr s2"
    and "name \<noteq> ''material.diffuseColor''" "name \<noteq> ''material.specularColor''"
    and "name \<noteq> ''material.shininess''"
  shows "shader_uniform s2 name = shader_uniform s name"
  using assms
  by (auto simp: SetShaderMaterial_def shader_uniform_def uniform_def
      split: if_splits sum.splits option.splits prod.splits)

lemma drawn_scene_facts:
  "registry_ok drawn_scene" "loaded drawn_scene = []"
  "m_pShaderManager drawn_scene = Some
     [setVec3Value ''material.diffuseColor'' (0.6, 0.5, 0.2),
      setIntValue ''bUseTexture'' 0,
      setSampler2DValue ''objectTexture'' 0]"
  "int (length (m_objectMaterials drawn_scene)) \<le> INT_MAX"
  "m_objectMaterials drawn_scene \<noteq> []"
  by (simp_all add: drawn_scene_def DefineObjectMaterials_def new_SceneManager_def
      registry_ok_def loaded_def INT_MAX_def)

lemma SetShaderMaterial_absent_tag:
  assumes "m_objectMaterials s \<noteq> []" "int (length (m_objectMaterials s)) \<le> INT_MAX"
    and "find (\<lambda>e. OBJECT_MATERIAL.tag e = mtg) (m_objectMaterials s) = None"
    and "m_pShaderManager s = Some calls"
  shows "SetShaderMaterial s mtg uninit =
           Inr (s\<lparr>m_pShaderManager := Some (calls @
                  [setVec3Value ''material.diffuseColor'' (diffuseColor uninit),
                   setVec3Value ''material.specularColor'' (specularColor uninit),
                   setFloatValue ''material.shininess'' (shininess uninit)])\<rparr>)"
proof -
  from assms(1-3) have "FindMaterial s mtg uninit = Inr (True, uninit)"
    using FindMaterial_loop_scan [of "m_objectMaterials s" 0 mtg uninit]
    by (simp add: FindMaterial_def)
  with assms(1,4) show ?thesis by (simp add: SetShaderMaterial_def)
qed

lemma SetShaderMaterial_present_tag:
  assumes "int (length (m_objectMaterials s)) \<le> INT_MAX"
    and "find (\<lambda>e. OBJECT_MATERIAL.tag e = mtg) (m_objectMaterials s) = Some e"
    and "m_pShaderManager s = Some calls"
  shows "SetShaderMaterial s mtg uninit =
           Inr (s\<lparr>m_pShaderManager := Some (calls @
                  [setVec3Value ''material.diffuseColor'' (diffuseColor e),
                   setVec3Value ''material.specularColor'' (specularColor e),
                   setFloatValue ''material.shininess'' (shininess e)])\<rparr>)"
proof -
  from assms(2) have ne: "m_objectMaterials s \<noteq> []" by auto
  with assms(1,2) have "FindMaterial s mtg uninit =
      Inr (True, uninit\<lparr>diffuseColor := diffuseColor e, specularColor := specularColor e,
                        shininess := shininess e\<rparr>)"
    using FindMaterial_loop_scan [of "m_objectMaterials s" 0 mtg uninit]
    by (simp add: FindMaterial_def)
  with ne assms(3) show ?thesis by (simp add: SetShaderMaterial_def)
qed

text \<open>
  Claim C3, as amended. In a state whose loaded count lies within the array and whose
  shader manager is non-null, \<open>SetShaderTexture\<close> with a tag that no loaded entry has
  sends \<open>bUseTexture := 1\<close> and \<open>objectTexture := -1\<close>: afterwards the use-texture flag
  is true and the sampler is the not-found sentinel, and every other uniform, the
  material uniforms among them, has the value it had. \<open>SetShaderMaterial\<close>, with any
  tag, leaves the use-texture flag and the sampler as they were.
\<close>

theorem SetShaderTexture_absent_tag:
  "registry_ok s \<Longrightarrow> m_pShaderManager s = Some calls \<Longrightarrow>
   tg \<notin> set (map TEXTURE_INFO.tag (loaded s)) \<Longrightarrow>
     (\<exists>s'. SetShaderTexture s tg = Inr s' \<and>
        s' = s\<lparr>m_pShaderManager := Some (calls @
               [setIntValue ''bUseTexture'' 1, setSampler2DValue ''objectTexture'' (- 1)])\<rparr> \<and>
        shader_uniform s' ''bUseTexture'' = Some (setIntValue ''bUseTexture'' 1) \<and>
        shader_uniform s' ''objectTexture'' = Some (setSampler2DValue ''objectTexture'' (- 1)) \<and>
        (\<forall>name. name \<noteq> ''bUseTexture'' \<and> name \<noteq> ''objectTexture'' \<longrightarrow>
           shader_uniform s' name = shader_uniform s name)) \<and>
     (SetShaderMaterial s mtg uninit = Inr s2 \<longrightarrow>
        shader_uniform s2 ''bUseTexture'' = shader_uniform s ''bUseTexture'' \<and>
        shader_uniform s2 ''objectTexture'' = shader_uniform s ''objectTexture'')"
proof (intro conjI impI)
  assume ok: "registry_ok s" and nn: "m_pShaderManager s = Some calls"
    and absent: "tg \<notin> set (map TEXTURE_INFO.tag (loaded s))"
  let ?s' = "s\<lparr>m_pShaderManager := Some (calls @
               [setIntValue ''bUseTexture'' 1, setSampler2DValue ''objectTexture'' (- 1)])\<rparr>"
  have "SetShaderTexture s tg = Inr ?s'" by (rule SetShaderTexture_absent [OF ok nn absent])
  moreover have "shader_uniform ?s' ''bUseTexture'' = Some (setIntValue ''bUseTexture'' 1)"
    by (simp add: shader_uniform_def uniform_def)
  moreover have "shader_uniform ?s' ''objectTexture'' = Some (setSampler2DValue ''objectTexture'' (- 1))"
    by (simp add: shader_uniform_def uniform_def)
  moreover have "\<forall>name. name \<noteq> ''bUseTexture'' \<and> name \<noteq> ''objectTexture'' \<longrightarrow>
           shader_uniform ?s' name = shader_uniform s name"
    using nn by (simp add: shader_uniform_def uniform_def)
  ultimately show "\<exists>s'. SetShaderTexture s tg = Inr s' \<and>
        s' = ?s' \<and>
        shader_uniform s' ''bUseTexture'' = Some (setIntValue ''bUseTexture'' 1) \<and>
        shader_uniform s' ''objectTexture'' = Some (setSampler2DValue ''objectTexture'' (- 1)) \<and>
        (\<forall>name. name \<noteq> ''bUseTexture'' \<and> name \<noteq> ''objectTexture'' \<longrightarrow>
           shader_uniform s' name = shader_uniform s name)"
    by blast
next
  assume m: "SetShaderMaterial s mtg uninit = Inr s2"
  show "shader_uniform s2 ''bUseTexture'' = shader_uniform s ''bUseTexture''"
    by (rule SetShaderMaterial_other_uniforms [OF m]) simp_all
  show "shader_uniform s2 ''objectTexture'' = shader_uniform s ''objectTexture''"
    by (rule SetShaderMaterial_other_uniforms [OF m]) simp_all
qed

theorem SetShaderTexture_absent_tag_witness:
  "registry_ok drawn_scene \<and>
   ''nonexistent'' \<notin> set (map TEXTURE_INFO.tag (loaded drawn_scene)) \<and>
   shader_uniform drawn_scene ''material.diffuseColor'' =
     Some (setVec3Value ''material.diffuseColor'' (0.6, 0.5, 0.2)) \<and>
   (case SetShaderTexture drawn_scene ''nonexistent'' of
      Inl e \<Rightarrow> False
    | Inr s' \<Rightarrow>
        shader_uniform s' ''bUseTexture'' = Some (setIntValue ''bUseTexture'' 1) \<and>
        shader_uniform s' ''objectTexture'' = Some (setSampler2DValue ''objectTexture'' (- 1)) \<and>
        shader_uniform s' ''material.diffuseColor'' =
          Some (setVec3Value ''material.diffuseColor'' (0.6, 0.5, 0.2))) \<and>
   (case SetShaderMaterial drawn_scene ''wood'' prior_material of
      Inl e \<Rightarrow> False
    | Inr s2 \<Rightarrow>
        shader_uniform s2 ''bUseTexture'' = Some (setIntValue ''bUseTexture'' 0) \<and>
        shader_uniform s2 ''objectTexture'' = Some (setSampler2DValue ''objectTexture'' 0))"
proof -
  note f = drawn_scene_facts
  have absent: "''nonexistent'' \<notin> set (map TEXTURE_INFO.tag (loaded drawn_scene))"
    by (simp add: f(2))
  have u: "shader_uniform drawn_scene ''material.diffuseColor'' =
             Some (setVec3Value ''material.diffuseColor'' (0.6, 0.5, 0.2))"
    "shader_uniform drawn_scene ''bUseTexture'' = Some (setIntValue ''bUseTexture'' 0)"
    "shader_uniform drawn_scene ''objectTexture'' = Some (setSampler2DValue ''objectTexture'' 0)"
    by (simp_all add: shader_uniform_def uniform_def f(3))
  have "find (\<lambda>e. OBJECT_MATERIAL.tag e = ''wood'') (m_objectMaterials drawn_scene) =
          Some \<lparr>diffuseColor = (0.6, 0.5, 0.2), specularColor = (0.5, 0.2, 0.5),
                shininess = 1, OBJECT_MATERIAL.tag = ''wood''\<rparr>"
    by (simp add: drawn_scene_def DefineObjectMaterials_def new_SceneManager_def)
  from SetShaderMaterial_present_tag [OF f(4) this f(3), of prior_material]
  obtain s2 where s2: "SetShaderMaterial drawn_scene ''wood'' prior_material = Inr s2"
    by blast
  note th = SetShaderTexture_absent_tag [OF f(1) f(3) absent, of "''wood''" prior_material s2]
  from th obtain s' where s': "SetShaderTexture drawn_scene ''nonexistent'' = Inr s'"
    "shader_uniform s' ''bUseTexture'' = Some (setIntValue ''bUseTexture'' 1)"
    "shader_uniform s' ''objectTexture'' = Some (setSampler2DValue ''objectTexture'' (- 1))"
    "shader_uniform s' ''material.diffuseColor'' = shader_uniform drawn_scene ''material.diffuseColor''"
    by auto
  from th s2 have m: "shader_uniform s2 ''bUseTexture'' = shader_uniform drawn_scene ''bUseTexture''"
    "shader_uniform s2 ''objectTexture'' = shader_uniform drawn_scene ''objectTexture''"
    by blast+
  from f(1) absent u s' s2 m show ?thesis by simp
qed

text \<open>
  Counterexample to claim C3 as stated: with no texture loaded, the flag last set to 0
  and the sampler last set to 0, \<open>SetShaderTexture\<close> with an unregistered tag leaves
  the flag at 1 and the sampler at -1.
\<close>

theorem SetShaderTexture_absent_tag_overwrites:
  "''nonexistent'' \<notin> set (map TEXTURE_INFO.tag (loaded drawn_scene)) \<and>
   shader_uniform drawn_scene ''bUseTexture'' = Some (setIntValue ''bUseTexture'' 0) \<and>
   shader_uniform drawn_scene ''objectTexture'' = Some (setSampler2DValue ''objectTexture'' 0) \<and>
   (case SetShaderTexture drawn_scene ''nonexistent'' of
      Inl e \<Rightarrow> False
    | Inr s' \<Rightarrow>
        shader_uniform s' ''bUseTexture'' = Some (setIntValue ''bUseTexture'' 1) \<and>
        shader_uniform s' ''objectTexture'' = Some (setSampler2DValue ''objectTexture'' (- 1)))"
proof -
  note f = drawn_scene_facts
  have absent: "''nonexistent'' \<notin> set (map TEXTURE_INFO.tag (loaded drawn_scene))"
    by (simp add: f(2))
  from SetShaderTexture_absent [OF f(1) f(3) absent] absent f(3)
  show ?thesis by (simp add: shader_uniform_def uniform_def)
qed

end
